theory Spec2Isabelle
  imports Complex_Main "HOL-Library.Sublist"
begin

section \<open>Python values shared by the measurement code\<close>

text \<open>
  Strings are ASCII character lists (the wire protocol and the file names are ASCII).
  A Python float is a finite value, an infinity or NaN; finite values are kept as exact
  reals, so rounding to binary64 is not part of the model.
\<close>

datatype pyfloat = Fin real | PInf | NInf | NaN

text \<open>
  A formatted string (an f-string, a log line, an SCPI command) is a list of pieces: literal
  text, a float with its format specification (\<open>''.3f''\<close>, or \<open>''''\<close> for the default
  conversion), or an integer. Only the rendering of numbers is left symbolic.
\<close>

datatype piece = Txt string | Fmt string pyfloat | IntP int

type_synonym fstring = "piece list"

datatype exn = ValueError fstring | OSError fstring

fun exn_msg :: "exn \<Rightarrow> fstring" where
  "exn_msg (ValueError m) = m"
| "exn_msg (OSError m) = m"

subsection \<open>Float arithmetic used by the drivers\<close>

fun fsub :: "pyfloat \<Rightarrow> pyfloat \<Rightarrow> pyfloat" where
  "fsub NaN _ = NaN"
| "fsub _ NaN = NaN"
| "fsub (Fin a) (Fin b) = Fin (a - b)"
| "fsub (Fin a) PInf = NInf"
| "fsub (Fin a) NInf = PInf"
| "fsub PInf PInf = NaN"
| "fsub PInf _ = PInf"
| "fsub NInf NInf = NaN"
| "fsub NInf _ = NInf"

fun fabs :: "pyfloat \<Rightarrow> pyfloat" where
  "fabs (Fin a) = Fin \<bar>a\<bar>"
| "fabs PInf = PInf"
| "fabs NInf = PInf"
| "fabs NaN = NaN"

fun fgt :: "pyfloat \<Rightarrow> pyfloat \<Rightarrow> bool" where
  "fgt NaN _ = False"
| "fgt _ NaN = False"
| "fgt (Fin a) (Fin b) = (a > b)"
| "fgt PInf PInf = False"
| "fgt PInf _ = True"
| "fgt NInf _ = False"
| "fgt (Fin a) NInf = True"
| "fgt (Fin a) PInf = False"

subsection \<open>\<open>str.strip\<close>, \<open>str.split\<close>, \<open>str.replace\<close>, \<open>os.path.basename\<close>\<close>

definition is_space :: "char \<Rightarrow> bool" where
  "is_space c = ((of_char c :: nat) \<in> {9, 10, 11, 12, 13, 28, 29, 30, 31, 32})"

definition strip :: "string \<Rightarrow> string" where
  "strip s = rev (dropWhile is_space (rev (dropWhile is_space s)))"

fun split_on :: "char \<Rightarrow> string \<Rightarrow> string list" where
  "split_on sep [] = [[]]"
| "split_on sep (c # cs) =
     (if c = sep then [] # split_on sep cs
      else (case split_on sep cs of
              [] \<Rightarrow> [[c]]
            | w # ws \<Rightarrow> (c # w) # ws))"

text \<open>
  \<open>replace_go old new k s\<close> scans \<open>s\<close> from the left; \<open>k\<close> counts the characters of a
  just-replaced occurrence of \<open>old\<close> that are still to be skipped, so occurrences are
  replaced left to right and do not overlap.
\<close>

fun replace_go :: "string \<Rightarrow> string \<Rightarrow> nat \<Rightarrow> string \<Rightarrow> string" where
  "replace_go old new k [] = []"
| "replace_go old new (Suc k) (c # cs) = replace_go old new k cs"
| "replace_go old new 0 (c # cs) =
     (if prefix old (c # cs) then new @ replace_go old new (length old - 1) cs
      else c # replace_go old new 0 cs)"

definition replace :: "string \<Rightarrow> string \<Rightarrow> string \<Rightarrow> string" where
  "replace old new s =
     (if old = [] then new @ concat (map (\<lambda>c. c # new) s)
      else replace_go old new 0 s)"

text \<open>\<open>os.path.basename\<close> on a POSIX path: everything after the last slash.\<close>

definition basename :: "string \<Rightarrow> string" where
  "basename p = rev (takeWhile (\<lambda>c. c \<noteq> CHR ''/'') (rev p))"

subsection \<open>\<open>int(str)\<close> and \<open>float(str)\<close>\<close>

definition is_digit :: "char \<Rightarrow> bool" where
  "is_digit c = (c \<in> set ''0123456789'')"

definition digit_val :: "char \<Rightarrow> nat" where
  "digit_val c = of_char c - 48"

definition dec_value :: "string \<Rightarrow> nat" where
  "dec_value ds = foldl (\<lambda>a c. 10 * a + digit_val c) 0 ds"

text \<open>
  A digit part is a non-empty run of digits in which single underscores may stand between
  two digits; the result is the run without the underscores.
\<close>

fun digitpart :: "string \<Rightarrow> string option" where
  "digitpart [] = None"
| "digitpart [c] = (if is_digit c then Some [c] else None)"
| "digitpart (c # d # cs) =
     (if \<not> is_digit c then None
      else if d = CHR ''_'' then map_option ((#) c) (digitpart cs)
      else map_option ((#) c) (digitpart (d # cs)))"

definition split_sign :: "string \<Rightarrow> bool \<times> string" where
  "split_sign s =
     (case s of
        [] \<Rightarrow> (False, [])
      | c # cs \<Rightarrow> if c = CHR ''-'' then (True, cs)
                  else if c = CHR ''+'' then (False, cs)
                  else (False, s))"

definition py_int :: "string \<Rightarrow> exn + int" where
  "py_int s =
     (let (neg, u) = split_sign (strip s) in
      case digitpart u of
        None \<Rightarrow> Inl (ValueError [Txt ''invalid literal for int() with base 10: '', Txt s])
      | Some ds \<Rightarrow> Inr (if neg then - int (dec_value ds) else int (dec_value ds)))"

definition lower :: "char \<Rightarrow> char" where
  "lower c = (let n = (of_char c :: nat) in if 65 \<le> n \<and> n \<le> 90 then char_of (n + 32) else c)"

definition is_e :: "char \<Rightarrow> bool" where
  "is_e c = (c = CHR ''e'' \<or> c = CHR ''E'')"

text \<open>
  The mantissa \<open>[digits][.[digits]]\<close> with at least one digit, as a real; \<open>None\<close> when
  malformed.
\<close>

definition mantissa :: "string \<Rightarrow> real option" where
  "mantissa m =
     (let ip = takeWhile (\<lambda>c. c \<noteq> CHR ''.'') m;
          rest = dropWhile (\<lambda>c. c \<noteq> CHR ''.'') m;
          fp = (case rest of [] \<Rightarrow> [] | _ # f \<Rightarrow> f)
      in if ip = [] \<and> fp = [] then None
         else
           (case (if ip = [] then Some [] else digitpart ip,
                  if fp = [] then Some [] else digitpart fp) of
              (Some i, Some f) \<Rightarrow>
                Some (real (dec_value i) + real (dec_value f) / 10 ^ length f)
            | _ \<Rightarrow> None))"

definition exponent :: "string \<Rightarrow> int option" where
  "exponent x =
     (case x of
        [] \<Rightarrow> Some 0
      | _ # e \<Rightarrow>
          (let (neg, u) = split_sign e in
           case digitpart u of
             None \<Rightarrow> None
           | Some ds \<Rightarrow> Some (if neg then - int (dec_value ds) else int (dec_value ds))))"

definition scale10 :: "real \<Rightarrow> int \<Rightarrow> real" where
  "scale10 m e = (if 0 \<le> e then m * 10 ^ nat e else m / 10 ^ nat (- e))"

definition float_error :: "string \<Rightarrow> exn" where
  "float_error s = ValueError [Txt ''could not convert string to float: '', Txt s]"

definition py_float :: "string \<Rightarrow> exn + pyfloat" where
  "py_float s =
     (let (neg, u) = split_sign (strip s); w = map lower u in
      if w = ''inf'' \<or> w = ''infinity'' then Inr (if neg then NInf else PInf)
      else if w = ''nan'' then Inr NaN
      else
        (case (mantissa (takeWhile (\<lambda>c. \<not> is_e c) u),
               exponent (dropWhile (\<lambda>c. \<not> is_e c) u)) of
           (Some m, Some e) \<Rightarrow> Inr (Fin (if neg then - scale10 m e else scale10 m e))
         | _ \<Rightarrow> Inl (float_error s)))"

section \<open>Sub-thermal-noise statistics (\<open>SubThermalNoise.py\<close>)\<close>






section \<open>Waveform file names (\<open>nr5g_fr1.py\<close>)\<close>

record waveform_params =
  signal_type :: string
  link_direction :: string
  bandwidth_mhz :: int
  modulation :: string
  subcarrier_spacing_khz :: int
  resource_blocks :: int
  resource_block_offset :: int
  duplexing :: string

text \<open>
  The regular expression
  \<open>^5GNR_(UL|DL)_(\d+MHz)_(QPSK|16QAM|64QAM|256QAM|1024QAM)_(\d+kHz)_(\d+RB)_(\d+RBO)\.wv$\<close>
  as a left-to-right matcher. \<open>lit\<close> consumes a literal, \<open>digits1\<close> the greedy \<open>\d+\<close>
  (the literal after each \<open>\d+\<close> starts with a letter, so giving digits back never helps),
  \<open>alt\<close> the first alternative that is a prefix (no alternative is a prefix of another).
  \<open>$\<close> matches at the end of the string or before one final newline.
\<close>

definition lit :: "string \<Rightarrow> string \<Rightarrow> string option" where
  "lit l s = (if prefix l s then Some (drop (length l) s) else None)"

definition digits1 :: "string \<Rightarrow> (string \<times> string) option" where
  "digits1 s =
     (let ds = takeWhile is_digit s in
      if ds = [] then None else Some (ds, dropWhile is_digit s))"

fun alt :: "string list \<Rightarrow> string \<Rightarrow> (string \<times> string) option" where
  "alt [] s = None"
| "alt (a # as) s = (if prefix a s then Some (a, drop (length a) s) else alt as s)"

definition at_end :: "string \<Rightarrow> bool" where
  "at_end s = (s = [] \<or> s = [char_of (10::nat)])"

definition modulations :: "string list" where
  "modulations = [''QPSK'', ''16QAM'', ''64QAM'', ''256QAM'', ''1024QAM'']"

definition match_waveform ::
  "string \<Rightarrow> string \<Rightarrow> (string \<times> string \<times> string \<times> string \<times> string \<times> string) option" where
  "match_waveform ext s =
     Option.bind (lit ''5GNR_'' s) (\<lambda>s1.
     Option.bind (alt [''UL'', ''DL''] s1) (\<lambda>(g1, s2).
     Option.bind (lit ''_'' s2) (\<lambda>s3.
     Option.bind (digits1 s3) (\<lambda>(d2, s4).
     Option.bind (lit ''MHz_'' s4) (\<lambda>s5.
     Option.bind (alt modulations s5) (\<lambda>(g3, s6).
     Option.bind (lit ''_'' s6) (\<lambda>s7.
     Option.bind (digits1 s7) (\<lambda>(d4, s8).
     Option.bind (lit ''kHz_'' s8) (\<lambda>s9.
     Option.bind (digits1 s9) (\<lambda>(d5, s10).
     Option.bind (lit ''RB_'' s10) (\<lambda>s11.
     Option.bind (digits1 s11) (\<lambda>(d6, s12).
     Option.bind (lit ''RBO'' s12) (\<lambda>s13.
     Option.bind (lit ext s13) (\<lambda>s14.
     if at_end s14
     then Some (g1, d2 @ ''MHz'', g3, d4 @ ''kHz'', d5 @ ''RB'', d6 @ ''RBO'')
     else None))))))))))))))"

text \<open>
  \<open>std_insr_driver._extract_waveform_params\<close>. The empty dictionary \<open>{}\<close> that the source
  returns when the name does not match, or when a conversion raises, is \<open>None\<close>.
\<close>

definition extract_waveform_params :: "string \<Rightarrow> waveform_params option" where
  "extract_waveform_params waveform_file =
     (let file_name = strip (basename waveform_file) in
      case match_waveform ''.wv'' file_name of
        None \<Rightarrow> None
      | Some (g1, g2, g3, g4, g5, g6) \<Rightarrow>
          (let link_direction = g1 in
           case (py_int (replace ''MHz'' [] g2), py_int (replace ''kHz'' [] g4),
                 py_int (replace ''RB'' [] g5), py_int (replace ''RBO'' [] g6)) of
             (Inr bw, Inr scs, Inr rb, Inr rbo) \<Rightarrow>
               Some \<lparr> signal_type = ''5GNR'',
                      link_direction = link_direction,
                      bandwidth_mhz = bw,
                      modulation = g3,
                      subcarrier_spacing_khz = scs,
                      resource_blocks = rb,
                      resource_block_offset = rbo,
                      duplexing = (if link_direction = ''UL'' then ''FDD'' else ''TDD'') \<rparr>
           | _ \<Rightarrow> None))"

text \<open>
  The naming grammar, as the set of names it generates: a non-empty digit string for each
  number, and the name assembled from its fields.
\<close>

definition digit_string :: "string \<Rightarrow> bool" where
  "digit_string ds = (ds \<noteq> [] \<and> list_all is_digit ds)"

definition waveform_name ::
  "string \<Rightarrow> string \<Rightarrow> string \<Rightarrow> string \<Rightarrow> string \<Rightarrow> string \<Rightarrow> string" where
  "waveform_name ld bw md scs rb rbo =
     ''5GNR_'' @ ld @ ''_'' @ bw @ ''MHz_'' @ md @ ''_'' @ scs @ ''kHz_'' @ rb @ ''RB_''
       @ rbo @ ''RBO.wv''"

section \<open>Instruments, clock and log\<close>

text \<open>
  One socket (\<open>iSocket\<close>): \<open>reply n\<close> is what the \<open>n\<close>-th operation on the socket meets,
  an exception raised by \<open>send\<close>/\<open>recv\<close> or the text received; \<open>pos\<close> counts the
  operations done so far and \<open>sent\<close> lists the commands handed to \<open>send\<close>. The transport's
  own log file is not modelled.
\<close>

record sock =
  reply :: "nat \<Rightarrow> exn + string"
  pos :: nat
  sent :: "fstring list"

datatype level = DEBUG | INFO | WARNING | ERROR

type_synonym logline = "level \<times> fstring"

text \<open>
  What every driver works on: the analyzer and generator sockets, the readings of
  \<open>timeit.default_timer\<close> (\<open>clock n\<close> is the \<open>n\<close>-th reading) and the log.
\<close>

record bench =
  VSA :: sock
  VSG :: sock
  clock :: "nat \<Rightarrow> real"
  ticks :: nat
  log :: "logline list"

subsection \<open>Computations that change the state and may raise\<close>

definition returnE :: "'a \<Rightarrow> 's \<Rightarrow> (exn + 'a) \<times> 's" where
  "returnE x = (\<lambda>s. (Inr x, s))"

definition raiseE :: "exn \<Rightarrow> 's \<Rightarrow> (exn + 'a) \<times> 's" where
  "raiseE e = (\<lambda>s. (Inl e, s))"

definition bindE ::
  "('s \<Rightarrow> (exn + 'a) \<times> 's) \<Rightarrow> ('a \<Rightarrow> 's \<Rightarrow> (exn + 'b) \<times> 's) \<Rightarrow> 's \<Rightarrow> (exn + 'b) \<times> 's" where
  "bindE m f = (\<lambda>s. case m s of (Inl e, s') \<Rightarrow> (Inl e, s') | (Inr x, s') \<Rightarrow> f x s')"

definition seqE ::
  "('s \<Rightarrow> (exn + 'a) \<times> 's) \<Rightarrow> ('s \<Rightarrow> (exn + 'b) \<times> 's) \<Rightarrow> 's \<Rightarrow> (exn + 'b) \<times> 's" where
  "seqE m n = bindE m (\<lambda>_. n)"

text \<open>\<open>try: m except Exception as e: h e\<close>.\<close>

definition tryE ::
  "('s \<Rightarrow> (exn + 'a) \<times> 's) \<Rightarrow> (exn \<Rightarrow> 's \<Rightarrow> (exn + 'a) \<times> 's) \<Rightarrow> 's \<Rightarrow> (exn + 'a) \<times> 's" where
  "tryE m h = (\<lambda>s. case m s of (Inl e, s') \<Rightarrow> h e s' | (Inr x, s') \<Rightarrow> (Inr x, s'))"

text \<open>\<open>try: m except ValueError: h\<close>: any other exception passes through.\<close>

definition try_ValueError ::
  "('s \<Rightarrow> (exn + 'a) \<times> 's) \<Rightarrow> (exn \<Rightarrow> 's \<Rightarrow> (exn + 'a) \<times> 's) \<Rightarrow> 's \<Rightarrow> (exn + 'a) \<times> 's" where
  "try_ValueError m h =
     (\<lambda>s. case m s of
            (Inl (ValueError t), s') \<Rightarrow> h (ValueError t) s'
          | (Inl (OSError t), s') \<Rightarrow> (Inl (OSError t), s')
          | (Inr x, s') \<Rightarrow> (Inr x, s'))"

definition liftE :: "exn + 'a \<Rightarrow> 's \<Rightarrow> (exn + 'a) \<times> 's" where
  "liftE r = (\<lambda>s. (r, s))"

definition getE :: "('s \<Rightarrow> 'a) \<Rightarrow> 's \<Rightarrow> (exn + 'a) \<times> 's" where
  "getE f = (\<lambda>s. (Inr (f s), s))"

definition modifyE :: "('s \<Rightarrow> 's) \<Rightarrow> 's \<Rightarrow> (exn + unit) \<times> 's" where
  "modifyE f = (\<lambda>s. (Inr (), f s))"

definition voidE :: "('s \<Rightarrow> (exn + 'a) \<times> 's) \<Rightarrow> 's \<Rightarrow> (exn + unit) \<times> 's" where
  "voidE m = bindE m (\<lambda>_. returnE ())"

text \<open>A block of statements executed in order.\<close>

fun doE :: "('s \<Rightarrow> (exn + unit) \<times> 's) list \<Rightarrow> 's \<Rightarrow> (exn + unit) \<times> 's" where
  "doE [] = returnE ()"
| "doE (m # ms) = seqE m (doE ms)"

subsection \<open>Socket operations (\<open>iSocket.write\<close>, \<open>iSocket.query\<close>), logging, timing\<close>

definition sock_io :: "fstring \<Rightarrow> sock \<Rightarrow> (exn + string) \<times> sock" where
  "sock_io cmd k = (reply k (pos k), k\<lparr>pos := Suc (pos k), sent := sent k @ [cmd]\<rparr>)"

definition vsa_query :: "fstring \<Rightarrow> 'a bench_scheme \<Rightarrow> (exn + string) \<times> 'a bench_scheme" where
  "vsa_query cmd = (\<lambda>s.
     case sock_io cmd (VSA s) of
       (Inl e, k) \<Rightarrow> (Inl e, s\<lparr>VSA := k\<rparr>)
     | (Inr response, k) \<Rightarrow> (Inr (strip response), s\<lparr>VSA := k\<rparr>))"

definition vsa_write :: "fstring \<Rightarrow> 'a bench_scheme \<Rightarrow> (exn + unit) \<times> 'a bench_scheme" where
  "vsa_write cmd = (\<lambda>s.
     case sock_io cmd (VSA s) of
       (Inl e, k) \<Rightarrow> (Inl e, s\<lparr>VSA := k\<rparr>)
     | (Inr _, k) \<Rightarrow> (Inr (), s\<lparr>VSA := k\<rparr>))"

definition vsg_query :: "fstring \<Rightarrow> 'a bench_scheme \<Rightarrow> (exn + string) \<times> 'a bench_scheme" where
  "vsg_query cmd = (\<lambda>s.
     case sock_io cmd (VSG s) of
       (Inl e, k) \<Rightarrow> (Inl e, s\<lparr>VSG := k\<rparr>)
     | (Inr response, k) \<Rightarrow> (Inr (strip response), s\<lparr>VSG := k\<rparr>))"

definition vsg_write :: "fstring \<Rightarrow> 'a bench_scheme \<Rightarrow> (exn + unit) \<times> 'a bench_scheme" where
  "vsg_write cmd = (\<lambda>s.
     case sock_io cmd (VSG s) of
       (Inl e, k) \<Rightarrow> (Inl e, s\<lparr>VSG := k\<rparr>)
     | (Inr _, k) \<Rightarrow> (Inr (), s\<lparr>VSG := k\<rparr>))"

definition logger :: "level \<Rightarrow> fstring \<Rightarrow> 'a bench_scheme \<Rightarrow> (exn + unit) \<times> 'a bench_scheme" where
  "logger lvl msg = (\<lambda>s. (Inr (), s\<lparr>log := log s @ [(lvl, msg)]\<rparr>))"

definition default_timer :: "'a bench_scheme \<Rightarrow> (exn + real) \<times> 'a bench_scheme" where
  "default_timer = (\<lambda>s. (Inr (clock s (ticks s)), s\<lparr>ticks := Suc (ticks s)\<rparr>))"

text \<open>
  \<open>utils.method_timer\<close>: the wrapped method's result paired with the elapsed time; an
  exception of the method passes through. The line printed to standard output is left out.
\<close>

definition method_timer ::
  "('a bench_scheme \<Rightarrow> (exn + 'r) \<times> 'a bench_scheme) \<Rightarrow>
   'a bench_scheme \<Rightarrow> (exn + 'r \<times> real) \<times> 'a bench_scheme" where
  "method_timer method =
     bindE default_timer (\<lambda>start_time.
     bindE method (\<lambda>result.
     bindE default_timer (\<lambda>stop_time.
     returnE (result, stop_time - start_time))))"

definition dquote :: string where
  "dquote = [char_of (34::nat)]"

definition backslash :: string where
  "backslash = [char_of (92::nat)]"

text \<open>Division of a float by a positive constant.\<close>

fun fdiv_pos :: "pyfloat \<Rightarrow> real \<Rightarrow> pyfloat" where
  "fdiv_pos (Fin a) c = Fin (a / c)"
| "fdiv_pos PInf c = PInf"
| "fdiv_pos NInf c = NInf"
| "fdiv_pos NaN c = NaN"

section \<open>Spur search (\<open>spur_search.py\<close>)\<close>

record spur = bench +
  fundamental_ghz :: real
  rbw_mhz :: real
  spur_limit_dbm :: real
  spur_pwr :: real
  spur_frequency :: real

text \<open>\<open>[float(f) for f in response.split(",") if f.strip()]\<close>\<close>

fun map_float :: "string list \<Rightarrow> exn + pyfloat list" where
  "map_float [] = Inr []"
| "map_float (f # fs) =
     (case py_float f of
        Inl e \<Rightarrow> Inl e
      | Inr v \<Rightarrow> (case map_float fs of Inl e \<Rightarrow> Inl e | Inr vs \<Rightarrow> Inr (v # vs)))"

definition float_list :: "string \<Rightarrow> exn + pyfloat list" where
  "float_list response = map_float (filter (\<lambda>f. strip f \<noteq> []) (split_on CHR '','' response))"

definition exclusion_window_hz :: real where
  "exclusion_window_hz = 10000000"

text \<open>
  The filter loop of \<open>get_results\<close> over \<open>enumerate(zip(freqs, powers), 1)\<close>:
  \<open>i\<close> is the running index and \<open>spurs\<close> the list built so far.
\<close>

fun filter_spurs ::
  "real \<Rightarrow> nat \<Rightarrow> (pyfloat \<times> pyfloat) list \<Rightarrow> (pyfloat \<times> pyfloat) list \<Rightarrow>
   'a bench_scheme \<Rightarrow> (exn + (pyfloat \<times> pyfloat) list) \<times> 'a bench_scheme" where
  "filter_spurs fundamental_hz i [] spurs = returnE spurs"
| "filter_spurs fundamental_hz i ((freq_hz, power_dbm) # rest) spurs =
     (if fgt (fabs (fsub freq_hz (Fin fundamental_hz))) (Fin exclusion_window_hz)
      then seqE (logger INFO [Txt ''Spur '', IntP (int i), Txt '': '',
                              Fmt ''.6f'' (fdiv_pos freq_hz 1000000000), Txt '' GHz, '',
                              Fmt ''.2f'' power_dbm, Txt '' dBm''])
                (filter_spurs fundamental_hz (Suc i) rest (spurs @ [(freq_hz, power_dbm)]))
      else seqE (logger DEBUG [Txt ''Excluding spur at '', Fmt ''.6f'' (fdiv_pos freq_hz 1000000000),
                               Txt '' GHz (near fundamental '',
                               Fmt ''.3f'' (Fin (fundamental_hz / 1000000000)), Txt '' GHz)''])
                (filter_spurs fundamental_hz (Suc i) rest spurs))"


text \<open>
  \<open>SpurSearch.get_results\<close>. \<open>get_results_finish\<close> is the end of the \<open>try\<close> block
  (\<open>if not spurs: ...; return spurs\<close>), \<open>get_results_try\<close> the block itself and
  \<open>get_results\<close> the timed method with its handler, which returns the empty list.
\<close>

definition get_results_finish ::
  "(pyfloat \<times> pyfloat) list \<Rightarrow> spur \<Rightarrow> (exn + (pyfloat \<times> pyfloat) list) \<times> spur" where
  "get_results_finish spurs =
     seqE (if spurs = [] then logger INFO [Txt ''No spurs detected after filtering'']
           else returnE ())
          (returnE spurs)"

definition get_results_try :: "spur \<Rightarrow> (exn + (pyfloat \<times> pyfloat) list) \<times> spur" where
  "get_results_try =
     bindE (vsa_query [Txt '':CALC:MARK:FUNC:FPE:COUN?'']) (\<lambda>count_response.
     bindE (liftE (py_int (strip count_response))) (\<lambda>spur_count.
     if spur_count > 0 then
       seqE (vsa_write [Txt ''DISP:WIND1:SUBW:TRAC1:Y:SCAL:AUTO ONCE''])
      (bindE (vsa_query [Txt '':CALC:MARK:FUNC:FPE:X?'']) (\<lambda>x_response.
       bindE (vsa_query [Txt '':CALC:MARK:FUNC:FPE:Y?'']) (\<lambda>y_response.
       bindE (liftE (float_list (strip x_response))) (\<lambda>freqs.
       bindE (liftE (float_list (strip y_response))) (\<lambda>powers.
       if int (length freqs) \<noteq> spur_count \<or> int (length powers) \<noteq> spur_count
       then seqE (logger WARNING
                    [Txt ''Mismatch in spur data: expected '', IntP spur_count,
                     Txt '' spurs, got '', IntP (int (length freqs)),
                     Txt '' frequencies and '', IntP (int (length powers)), Txt '' powers''])
                 (returnE [])
       else bindE (getE fundamental_ghz) (\<lambda>ghz.
            bindE (filter_spurs (ghz * 1000000000) 1 (zip freqs powers) [])
                  get_results_finish))))))
     else get_results_finish []))"

definition get_results :: "spur \<Rightarrow> (exn + (pyfloat \<times> pyfloat) list \<times> real) \<times> spur" where
  "get_results =
     method_timer
       (tryE get_results_try
          (\<lambda>e. seqE (logger ERROR (Txt ''Failed to retrieve spur results: '' # exn_msg e))
                     (returnE [])))"

text \<open>A peak is outside the guard band when its distance to the fundamental exceeds 10 MHz.\<close>

definition outside_guard :: "real \<Rightarrow> pyfloat \<times> pyfloat \<Rightarrow> bool" where
  "outside_guard fundamental_hz peak =
     fgt (fabs (fsub (fst peak) (Fin fundamental_hz))) (Fin exclusion_window_hz)"

text \<open>
  Two concrete analyzers for the examples of the specification: fundamental 2.44 GHz with
  peaks at 2.441 GHz and 2.460 GHz, and a reported count of three with two frequencies.
\<close>

definition spur_example :: "(nat \<Rightarrow> exn + string) \<Rightarrow> spur" where
  "spur_example vsa_replies =
     \<lparr> VSA = \<lparr> reply = vsa_replies, pos = 0, sent = [] \<rparr>,
       VSG = \<lparr> reply = (\<lambda>n. Inr []), pos = 0, sent = [] \<rparr>,
       clock = (\<lambda>n. real n), ticks = 0, log = [],
       fundamental_ghz = 2.44, rbw_mhz = 0.02, spur_limit_dbm = - 122, spur_pwr = - 70,
       spur_frequency = 2440000000 \<rparr>"


definition three_counted_two_returned :: "nat \<Rightarrow> exn + string" where
  "three_counted_two_returned n =
     (if n = 0 then Inr ''3''
      else if n = 1 then Inr []
      else if n = 2 then Inr ''2430000000,2460000000''
      else Inr ''-80.5,-101.25,-99'')"

section \<open>NR5G driver (\<open>nr5g_fr1.py\<close>)\<close>

text \<open>
  One record of the shared result list, with the keys of the dictionary that
  \<open>run_nr5g_measurement\<close> appends (prefixed with \<open>res_\<close>).
\<close>

record result =
  res_test_set :: int
  res_type :: string
  res_center_frequency_hz :: real
  res_power_dbm :: real
  res_resource_blocks :: int
  res_resource_block_offset :: int
  res_channel_bandwidth_mhz :: int
  res_modulation_type :: string
  res_subcarrier_spacing_khz :: int
  res_duplexing :: string
  res_link_direction :: string
  res_waveform_file :: "string option"
  res_setup_file :: "string option"
  res_config :: fstring
  res_evm :: "pyfloat option"
  res_ch_pwr :: "pyfloat option"
  res_acp_lower :: "pyfloat option"
  res_acp_upper :: "pyfloat option"
  res_alt_lower :: "pyfloat option"
  res_alt_upper :: "pyfloat option"
  res_timings :: "string \<rightharpoonup> real"

text \<open>
  The state of an NR5G run: the bench, the attributes of the \<open>std_insr_driver\<close> instance
  (\<open>self_...\<close>) and the module-level variables of \<open>main.py\<close> (\<open>results\<close>,
  \<open>previous_config\<close>, \<open>previous_freq\<close>; Python's \<open>None\<close> is \<open>None\<close>). The configuration
  dictionary \<open>{"waveform_file": .., "setup_file": ..}\<close> is the pair of its two values.
\<close>

record nr5g = bench +
  self_freq :: real
  self_pwr :: real
  self_waveform_file :: "string option"
  self_setup_file :: "string option"
  self_waveform_params :: "waveform_params option"
  self_rb :: int
  self_rbo :: int
  self_bw :: int
  self_mod :: string
  self_scs :: int
  self_dupl :: string
  self_ldir :: string
  results :: "result list"
  previous_config :: "(string option \<times> string option) option"
  previous_freq :: "real option"

text \<open>The truth value of an optional path: neither \<open>None\<close> nor the empty string.\<close>

definition given :: "string option \<Rightarrow> bool" where
  "given f = (f \<noteq> None \<and> f \<noteq> Some [])"

text \<open>
  \<open>_validate_file_names\<close> and the attribute part of \<open>__init__\<close>. Opening the two
  connections is not modelled: the bench passed in holds the sockets. The module-level
  variables keep the values they have when the driver is constructed.
\<close>

definition validate_file_name :: "string option \<Rightarrow> string \<Rightarrow> string \<Rightarrow> exn + unit" where
  "validate_file_name file_path file_type ext =
     (if given file_path then
        (let file_name = strip (basename (the file_path)) in
         if match_waveform ext file_name = None
         then Inl (ValueError [Txt ''Invalid '', Txt file_type, Txt '' file name: '', Txt file_name])
         else Inr ())
      else Inr ())"

definition validate_file_names :: "string option \<Rightarrow> string option \<Rightarrow> exn + unit" where
  "validate_file_names waveform_file setup_file =
     (case validate_file_name waveform_file ''waveform'' ''.wv'' of
        Inl e \<Rightarrow> Inl e
      | Inr _ \<Rightarrow> validate_file_name setup_file ''setup'' ''.dfl'')"

definition driver_init ::
  "bench \<Rightarrow> result list \<Rightarrow> (string option \<times> string option) option \<Rightarrow> real option \<Rightarrow>
   real \<Rightarrow> real \<Rightarrow> string option \<Rightarrow> string option \<Rightarrow> exn + nr5g" where
  "driver_init b res prev_config prev_freq freq p0 waveform_file setup_file =
     (case validate_file_names waveform_file setup_file of
        Inl e \<Rightarrow> Inl e
      | Inr _ \<Rightarrow>
          (let params = (if given waveform_file
                         then extract_waveform_params (the waveform_file) else None)
           in Inr
                \<lparr> VSA = VSA b, VSG = VSG b, clock = clock b, ticks = ticks b, log = log b,
                  self_freq = freq,
                  self_pwr = p0,
                  self_waveform_file = waveform_file,
                  self_setup_file = setup_file,
                  self_waveform_params = params,
                  self_rb = (case params of None \<Rightarrow> 51 | Some p \<Rightarrow> resource_blocks p),
                  self_rbo = (case params of None \<Rightarrow> 0 | Some p \<Rightarrow> resource_block_offset p),
                  self_bw = (case params of None \<Rightarrow> 20 | Some p \<Rightarrow> bandwidth_mhz p),
                  self_mod = (case params of None \<Rightarrow> ''QAM256'' | Some p \<Rightarrow> modulation p),
                  self_scs = (case params of None \<Rightarrow> 30 | Some p \<Rightarrow> subcarrier_spacing_khz p),
                  self_dupl = (case params of None \<Rightarrow> ''FDD'' | Some p \<Rightarrow> duplexing p),
                  self_ldir = (case params of None \<Rightarrow> ''UP'' | Some p \<Rightarrow> link_direction p),
                  results = res,
                  previous_config = prev_config,
                  previous_freq = prev_freq \<rparr>))"

subsection \<open>Generator and analyzer configuration\<close>

definition VSG_pwr :: "real \<Rightarrow> nr5g \<Rightarrow> (exn + unit) \<times> nr5g" where
  "VSG_pwr p =
     seqE (vsg_write [Txt '':SOUR1:POW:POW '', Fmt [] (Fin p)])
          (modifyE (\<lambda>s. s\<lparr>self_pwr := p\<rparr>))"

definition VSG_Config_try :: "nr5g \<Rightarrow> (exn + unit) \<times> nr5g" where
  "VSG_Config_try =
     bindE (getE self_waveform_file) (\<lambda>waveform_file.
     if \<not> given waveform_file
     then seqE (logger ERROR [Txt ''No waveform file provided''])
               (raiseE (ValueError [Txt ''No waveform file provided'']))
     else
       (let scpi_waveform_path = replace backslash ''/'' (the waveform_file) in
        bindE (getE self_freq) (\<lambda>freq.
        bindE (getE self_pwr) (\<lambda>p.
        doE [logger INFO [Txt ''Loading waveform file: '', Txt scpi_waveform_path],
             vsg_write [Txt '':SOUR1:BB:ARB:STAT 0''],
             voidE (vsg_query [Txt '':SOUR1:BB:ARB:WAV:SEL '', Txt dquote,
                               Txt scpi_waveform_path, Txt dquote, Txt '';*OPC?'']),
             voidE (vsg_query [Txt '':SOUR1:BB:ARB:STAT 1;*OPC?'']),
             vsg_write [Txt '':SOUR1:FREQ:CW '', Fmt [] (Fin freq)],
             vsg_write [Txt '':OUTP1:STAT 1''],
             voidE (vsg_query [Txt '':SOUR1:CORR:OPT:EVM 1;*OPC?'']),
             vsg_write [Txt '':SOUR1:BB:ARB:TRIG:OUTP1:MODE REST''],
             VSG_pwr p,
             voidE (vsg_query [Txt ''*OPC?'']),
             logger INFO [Txt ''VSG configuration complete.'']]))))"

definition VSG_Config :: "nr5g \<Rightarrow> (exn + unit \<times> real) \<times> nr5g" where
  "VSG_Config =
     method_timer
       (tryE VSG_Config_try
          (\<lambda>e. seqE (logger ERROR (Txt ''VSG configuration failed: '' # exn_msg e))
                     (raiseE e)))"

definition VSA_Config_try :: "real option \<Rightarrow> nr5g \<Rightarrow> (exn + unit) \<times> nr5g" where
  "VSA_Config_try freq_arg =
     seqE (logger INFO [Txt ''Configuring VSA for 5G NR''])
    (bindE (getE self_freq) (\<lambda>own_freq.
     let freq = (case freq_arg of None \<Rightarrow> own_freq | Some f \<Rightarrow> f) in
     if freq \<le> 0
     then seqE (logger ERROR [Txt ''Invalid frequency: '', Fmt [] (Fin freq)])
               (raiseE (ValueError [Txt ''Invalid frequency: '', Fmt [] (Fin freq)]))
     else
       bindE (getE self_setup_file) (\<lambda>setup_file.
       if \<not> given setup_file
       then seqE (logger ERROR [Txt ''No setup file provided''])
                 (raiseE (ValueError [Txt ''No setup file provided'']))
       else
         (let scpi_setup_path = replace backslash ''/'' (the setup_file) in
          doE [logger INFO [Txt ''Recalling setup file: '', Txt scpi_setup_path],
               voidE (vsa_query [Txt ''*RST;*OPC?'']),
               voidE (vsa_query [Txt '':MMEM:LOAD:STAT 1,'', Txt dquote, Txt scpi_setup_path,
                                 Txt dquote, Txt '';*OPC?'']),
               voidE (vsa_query [Txt '':SENS:ADJ:LEV;*OPC?'']),
               voidE (vsa_query [Txt '':SENS:ADJ:EVM;*OPC?'']),
               vsa_write [Txt ''INIT:CONT OFF''],
               voidE (vsa_query [Txt '':SENS:FREQ:CENT '', Fmt [] (Fin freq), Txt '';*OPC?'']),
               vsa_write [Txt '':SENS:SWE:TIME 0.0008''],
               vsa_write [Txt '':SENS:NR5G:FRAM:SLOT 1''],
               voidE (vsa_query [Txt ''INIT:IMM;*OPC?'']),
               voidE (vsa_query [Txt '':SENS:ADJ:EVM;*OPC?'']),
               logger INFO [Txt ''Performed pre-sweep in VSA_Config'']]))))"

definition VSA_Config :: "real option \<Rightarrow> nr5g \<Rightarrow> (exn + unit \<times> real) \<times> nr5g" where
  "VSA_Config freq_arg =
     method_timer
       (tryE (VSA_Config_try freq_arg)
          (\<lambda>e. seqE (logger ERROR (Txt ''VSA configuration failed: '' # exn_msg e))
                     (raiseE e)))"

definition VSx_freq :: "real \<Rightarrow> nr5g \<Rightarrow> (exn + unit \<times> real) \<times> nr5g" where
  "VSx_freq freq =
     method_timer
       (seqE (logger INFO [Txt ''Setting VSA/VSG frequency to '',
                           Fmt ''.3f'' (Fin (freq / 1000000000)), Txt ''GHz''])
             (if freq \<le> 0
              then seqE (logger ERROR [Txt ''Invalid frequency: '', Fmt [] (Fin freq)])
                        (raiseE (ValueError [Txt ''Invalid frequency: '', Fmt [] (Fin freq)]))
              else doE [voidE (vsa_query [Txt '':SENS:FREQ:CENT '', Fmt [] (Fin freq),
                                          Txt '';*OPC?'']),
                        voidE (vsg_query [Txt '':SOUR:FREQ:CW '', Fmt [] (Fin freq),
                                          Txt '';*OPC?'']),
                        modifyE (\<lambda>s. s\<lparr>self_freq := freq\<rparr>)]))"

definition VSA_sweep :: "nr5g \<Rightarrow> (exn + unit \<times> real) \<times> nr5g" where
  "VSA_sweep =
     method_timer
       (logger INFO [Txt ''Skipping VSA sweep as it is redundant before EVM measurement''])"

definition file_suffix :: "nr5g \<Rightarrow> fstring" where
  "file_suffix s =
     (if given (self_waveform_file s)
      then [Txt ''_waveform_'', Txt (basename (the (self_waveform_file s)))] else [])
     @ (if given (self_setup_file s)
        then [Txt ''_setup_'', Txt (basename (the (self_setup_file s)))] else [])"

definition info_config :: "nr5g \<Rightarrow> fstring" where
  "info_config s =
     (case self_waveform_params s of
        Some params \<Rightarrow>
          [Fmt ''.3f'' (Fin (self_freq s / 1000000000)), Txt ''GHz_'',
           IntP (bandwidth_mhz params), Txt ''MHz_'',
           Txt (duplexing params), Txt ''_'',
           Txt (link_direction params), Txt ''_'',
           IntP (subcarrier_spacing_khz params), Txt ''_'',
           IntP (resource_blocks params), Txt ''RB_'',
           IntP (resource_block_offset params), Txt ''RBO_'',
           Txt (modulation params)]
      | None \<Rightarrow>
          [Fmt ''.3f'' (Fin (self_freq s / 1000000000)), Txt ''GHz_'',
           IntP (self_bw s), Txt ''MHz_'', Txt (self_dupl s), Txt ''_'', Txt (self_ldir s),
           Txt ''_'', IntP (self_scs s), Txt ''_'', IntP (self_rb s), Txt ''RB_'',
           IntP (self_rbo s), Txt ''RBO_'', Txt (self_mod s)])
     @ file_suffix s"

definition VSA_get_info :: "nr5g \<Rightarrow> (exn + fstring \<times> real) \<times> nr5g" where
  "VSA_get_info =
     method_timer
       (bindE (getE info_config) (\<lambda>config.
        seqE (logger INFO (Txt ''VSA configuration: '' # config))
             (returnE config)))"

subsection \<open>EVM and ACLR measurements\<close>

text \<open>
  \<open>VSA_get_EVM\<close>: \<open>VSA_get_EVM_try\<close> is the body of the outer \<open>try\<close>; the two inner
  handlers catch \<open>ValueError\<close> only.
\<close>

definition VSA_get_EVM_try :: "nr5g \<Rightarrow> (exn + pyfloat) \<times> nr5g" where
  "VSA_get_EVM_try =
     seqE (vsa_write [Txt '':CONF:NR5G:MEAS EVM;*OPC''])
    (seqE (vsa_query [Txt ''INIT:IMM;*OPC?''])
    (bindE (vsg_query [Txt '':SOUR1:POW:PEP?'']) (\<lambda>pep_str.
     bindE (try_ValueError (liftE (py_float pep_str))
              (\<lambda>e. seqE (logger ERROR [Txt ''Failed to parse PEP value: '', Txt pep_str])
                         (raiseE e))) (\<lambda>pep.
     let reflev = fsub pep (Fin 2) in
     seqE (vsa_write [Txt '':DISP:WIND:TRAC:Y:SCAL:RLEV '', Fmt [] reflev])
    (seqE (vsa_query [Txt '':SENS:ADJ:EVM;*OPC?''])
    (seqE (vsa_query [Txt ''INIT:IMM;*OPC?''])
    (bindE (vsa_query [Txt '':FETC:CC1:SUMM:EVM:ALL:AVER?'']) (\<lambda>evm_str.
     try_ValueError
       (bindE (liftE (py_float evm_str)) (\<lambda>evm.
        seqE (logger INFO [Txt ''EVM measured: '', Fmt ''.2f'' evm, Txt '' dB''])
             (returnE evm)))
       (\<lambda>e. seqE (logger ERROR [Txt ''Failed to parse EVM value: '', Txt evm_str])
                  (returnE NaN))))))))))"

definition VSA_get_EVM :: "nr5g \<Rightarrow> (exn + pyfloat \<times> real) \<times> nr5g" where
  "VSA_get_EVM =
     method_timer
       (seqE (logger INFO [Txt ''Measuring EVM''])
             (tryE VSA_get_EVM_try
                (\<lambda>e. seqE (logger ERROR (Txt ''EVM measurement failed: '' # exn_msg e))
                           (returnE NaN))))"

definition VSA_get_ACLR_try :: "nr5g \<Rightarrow> (exn + string) \<times> nr5g" where
  "VSA_get_ACLR_try =
     bindE (getE self_freq) (\<lambda>freq.
     seqE (vsa_write [Txt '':CONF:NR5G:MEAS ACLR;*OPC''])
    (seqE (vsa_write [Txt '':SENS:FREQ:CENT '', Fmt [] (Fin freq),
                      Txt '';:SENS:POW:ACH:ACP 2;*OPC''])
    (seqE (vsa_write [Txt '':SENS:SWE:TYPE SWE''])
    (seqE (vsa_write [Txt ''SENS:SWE:OPT SPE''])
    (seqE (vsa_query [Txt ''INIT:IMM;*OPC?''])
    (bindE (vsa_query [Txt '':CALC:MARK:FUNC:POW:RES? ACP'']) (\<lambda>aclr.
     seqE (logger INFO [Txt ''ACLR measured: '', Txt aclr])
          (returnE (strip aclr)))))))))"

definition VSA_get_ACLR :: "nr5g \<Rightarrow> (exn + string \<times> real) \<times> nr5g" where
  "VSA_get_ACLR =
     method_timer
       (seqE (logger INFO [Txt ''Measuring ACLR''])
             (tryE VSA_get_ACLR_try
                (\<lambda>e. seqE (logger ERROR (Txt ''ACLR measurement failed: '' # exn_msg e))
                           (returnE []))))"

section \<open>One NR5G test set (\<open>main.run_nr5g_measurement\<close>)\<close>

text \<open>
  The test configuration, with the keys that \<open>run_nr5g_measurement\<close> reads (prefixed with
  \<open>tc_\<close>). The two numbers are always present; a key read with \<open>.get\<close> may be missing.
\<close>

record test_config =
  tc_center_frequency_ghz :: real
  tc_power_dbm :: real
  tc_waveform_file :: "string option"
  tc_setup_file :: "string option"
  tc_measure_aclr :: "bool option"

type_synonym timing_map = "string \<rightharpoonup> real"

text \<open>Lines 64 to 71: reconfigure generator and analyzer when the configuration changed.\<close>

definition nr5g_reconfigure ::
  "string option \<times> string option \<Rightarrow> real \<Rightarrow> timing_map \<Rightarrow> nr5g \<Rightarrow> (exn + timing_map) \<times> nr5g" where
  "nr5g_reconfigure current_config freq timings =
     bindE (getE previous_config) (\<lambda>prev.
     if prev \<noteq> Some current_config
     then seqE (logger INFO [Txt ''Waveform configuration changed, reconfiguring VSA/VSG''])
         (bindE VSG_Config (\<lambda>(_, t_vsg).
          bindE (VSA_Config (Some freq)) (\<lambda>(_, t_vsa).
          seqE (modifyE (\<lambda>s. s\<lparr>previous_config := Some current_config,
                                  previous_freq := Some freq\<rparr>))
               (returnE (timings(''VSG_Config'' \<mapsto> t_vsg, ''VSA_Config'' \<mapsto> t_vsa))))))
     else seqE (logger INFO [Txt ''Waveform configuration unchanged, skipping VSA/VSG config''])
               (returnE timings))"

text \<open>Lines 73 to 80: retune when the frequency moved by more than the tolerance.\<close>

definition nr5g_retune :: "real \<Rightarrow> timing_map \<Rightarrow> nr5g \<Rightarrow> (exn + timing_map) \<times> nr5g" where
  "nr5g_retune freq timings =
     bindE (getE previous_freq) (\<lambda>prev.
     if prev = None \<or> \<bar>the prev - freq\<bar> > 1 / 1000
     then seqE (logger INFO [Txt ''Frequency changed, setting VSA/VSG to '',
                             Fmt ''.3f'' (Fin (freq / 1000000000)), Txt ''GHz''])
         (bindE (VSx_freq freq) (\<lambda>(_, t).
          seqE (modifyE (\<lambda>s. s\<lparr>previous_freq := Some freq\<rparr>))
               (returnE (timings(''VSx_freq'' \<mapsto> t)))))
     else seqE (logger INFO [Txt ''Frequency unchanged, skipping VSx_freq''])
               (returnE (timings(''VSx_freq'' \<mapsto> 0))))"

text \<open>
  Lines 99 to 107: the five ACLR values. The result is the empty list when the five fields
  stay \<open>None\<close>; a field that is not a number raises \<open>ValueError\<close>.
\<close>

definition aclr_fields :: "string \<Rightarrow> exn + pyfloat list" where
  "aclr_fields aclr_vals =
     (if aclr_vals = [] then Inr []
      else (let aclr_parts = split_on CHR '','' aclr_vals in
            if length aclr_parts = 5 then map_float aclr_parts else Inr []))"

definition nth_opt :: "'a list \<Rightarrow> nat \<Rightarrow> 'a option" where
  "nth_opt xs i = (if i < length xs then Some (xs ! i) else None)"

definition config_summary :: "real \<Rightarrow> string option \<Rightarrow> string option \<Rightarrow> nr5g \<Rightarrow> fstring" where
  "config_summary freq waveform_file setup_file s =
     [Fmt ''.3f'' (Fin (freq / 1000000000)), Txt ''GHz_'',
      IntP (self_bw s), Txt ''MHz_'', Txt (self_dupl s), Txt ''_'', Txt (self_ldir s), Txt ''_'',
      IntP (self_scs s), Txt ''_'', IntP (self_rb s), Txt ''RB_'',
      IntP (self_rbo s), Txt ''RBO_'', Txt (self_mod s),
      Txt ''_waveform_'',
      Txt (if given waveform_file then basename (the waveform_file) else ''default''),
      Txt ''_setup_'',
      Txt (if given setup_file then basename (the setup_file) else ''default'')]"

text \<open>Lines 100 to 107: the optional ACLR measurement.\<close>

definition nr5g_aclr :: "bool \<Rightarrow> timing_map \<Rightarrow> nr5g \<Rightarrow> (exn + pyfloat list \<times> timing_map) \<times> nr5g" where
  "nr5g_aclr measure_aclr timings =
     (if measure_aclr
      then bindE VSA_get_ACLR (\<lambda>(aclr_vals, t).
           seqE (logger INFO [Txt ''NR5G ACLR: '', Txt aclr_vals])
          (bindE (liftE (aclr_fields aclr_vals)) (\<lambda>vals.
           returnE (vals, timings(''VSA_get_ACLR'' \<mapsto> t)))))
      else returnE ([], timings))"

text \<open>Lines 82 to 130: set the power, measure and append the record.\<close>

definition nr5g_measure ::
  "test_config \<Rightarrow> int \<Rightarrow> real \<Rightarrow> timing_map \<Rightarrow> nr5g \<Rightarrow> (exn + unit) \<times> nr5g" where
  "nr5g_measure tc test_set freq timings0 =
     (let p = tc_power_dbm tc;
          waveform_file = tc_waveform_file tc;
          setup_file = tc_setup_file tc;
          measure_aclr = (case tc_measure_aclr tc of None \<Rightarrow> True | Some b \<Rightarrow> b)
      in
      seqE (VSG_pwr p)
     (bindE VSA_get_info (\<lambda>(config_result, t_info).
      bindE (getE (config_summary freq waveform_file setup_file)) (\<lambda>config.
      bindE VSA_sweep (\<lambda>(_, t_sweep).
      bindE VSA_get_EVM (\<lambda>(evm, t_evm).
      seqE (logger INFO [Txt ''NR5G EVM: '', Fmt ''.2f'' evm, Txt '' dB''])
     (bindE (nr5g_aclr measure_aclr
               (timings0(''VSA_get_info'' \<mapsto> t_info, ''VSA_sweep_evm'' \<mapsto> t_sweep,
                         ''VSA_get_EVM'' \<mapsto> t_evm, ''VSA_get_ACLR'' \<mapsto> 0))) (\<lambda>(vals, timings).
      modifyE (\<lambda>s. s\<lparr>results := results s @
        [\<lparr> res_test_set = test_set,
            res_type = ''NR5G'',
            res_center_frequency_hz = freq,
            res_power_dbm = p,
            res_resource_blocks = self_rb s,
            res_resource_block_offset = self_rbo s,
            res_channel_bandwidth_mhz = self_bw s,
            res_modulation_type = self_mod s,
            res_subcarrier_spacing_khz = self_scs s,
            res_duplexing = self_dupl s,
            res_link_direction = self_ldir s,
            res_waveform_file = waveform_file,
            res_setup_file = setup_file,
            res_config = config,
            res_evm = Some evm,
            res_ch_pwr = nth_opt vals 0,
            res_acp_lower = nth_opt vals 1,
            res_acp_upper = nth_opt vals 2,
            res_alt_lower = nth_opt vals 3,
            res_alt_upper = nth_opt vals 4,
            res_timings = timings \<rparr>] \<rparr>)))))))))"

text \<open>
  \<open>run_nr5g_measurement\<close>: \<open>nr5g_setup\<close> is lines 49 to 80 of its \<open>try\<close> (the locals,
  the start line of the log with its message \<open>start_message\<close>, reconfiguration and
  retune), \<open>nr5g_try\<close> the whole body of
  the \<open>try\<close> (lines 49 to 130), and the handler of line 131 logs the failure.
\<close>

definition start_message :: "test_config \<Rightarrow> int \<Rightarrow> fstring" where
  "start_message tc test_set =
     [Txt ''Starting NR5G test set '', IntP test_set, Txt '': freq='',
      Fmt ''.3f'' (Fin (tc_center_frequency_ghz tc * 1000000000 / 1000000000)),
      Txt ''GHz, pwr='', Fmt [] (Fin (tc_power_dbm tc)), Txt ''dBm, waveform_file='',
      Txt (case tc_waveform_file tc of None \<Rightarrow> ''None'' | Some f \<Rightarrow> f),
      Txt '', setup_file='',
      Txt (case tc_setup_file tc of None \<Rightarrow> ''None'' | Some f \<Rightarrow> f)]"

definition nr5g_setup :: "test_config \<Rightarrow> int \<Rightarrow> nr5g \<Rightarrow> (exn + timing_map) \<times> nr5g" where
  "nr5g_setup tc test_set =
     (let freq = tc_center_frequency_ghz tc * 1000000000;
          current_config = (tc_waveform_file tc, tc_setup_file tc)
      in
      seqE (logger INFO (start_message tc test_set))
     (bindE (nr5g_reconfigure current_config freq Map.empty) (\<lambda>timings.
      nr5g_retune freq timings)))"

definition nr5g_try :: "test_config \<Rightarrow> int \<Rightarrow> nr5g \<Rightarrow> (exn + unit) \<times> nr5g" where
  "nr5g_try tc test_set =
     bindE (nr5g_setup tc test_set)
           (nr5g_measure tc test_set (tc_center_frequency_ghz tc * 1000000000))"

definition run_nr5g_measurement :: "test_config \<Rightarrow> int \<Rightarrow> nr5g \<Rightarrow> nr5g" where
  "run_nr5g_measurement tc test_set s =
     snd (tryE (nr5g_try tc test_set)
            (\<lambda>e. logger ERROR
                    (Txt ''NR5G test set '' # IntP test_set # Txt '' failed: '' # exn_msg e)) s)"

section \<open>What a computation leaves unchanged\<close>

text \<open>
  \<open>stays R m\<close>: from every state, \<open>m\<close> ends in a state related to it by \<open>R\<close>, whether
  it returns or raises. \<open>frame R\<close>: \<open>R\<close> is reflexive and transitive and holds whenever
  only a socket or the clock changes.
\<close>

definition stays :: "('s \<Rightarrow> 's \<Rightarrow> bool) \<Rightarrow> ('s \<Rightarrow> 'r \<times> 's) \<Rightarrow> bool" where
  "stays R m = (\<forall>s. R s (snd (m s)))"

definition frame :: "('a bench_scheme \<Rightarrow> 'a bench_scheme \<Rightarrow> bool) \<Rightarrow> bool" where
  "frame R =
     ((\<forall>s. R s s) \<and> (\<forall>a b c. R a b \<longrightarrow> R b c \<longrightarrow> R a c) \<and>
      (\<forall>s k. R s (s\<lparr>VSA := k\<rparr>)) \<and> (\<forall>s k. R s (s\<lparr>VSG := k\<rparr>)) \<and>
      (\<forall>s n. R s (s\<lparr>ticks := n\<rparr>)))"

text \<open>The log only grows, and every added line satisfies \<open>P\<close>.\<close>

definition logs_only :: "(logline \<Rightarrow> bool) \<Rightarrow> 'a bench_scheme \<Rightarrow> 'a bench_scheme \<Rightarrow> bool" where
  "logs_only P s s' = (\<exists>ls. log s' = log s @ ls \<and> list_all P ls)"

text \<open>A line that does not start with the text \<open>t\<close>.\<close>

definition no_text :: "string \<Rightarrow> logline \<Rightarrow> bool" where
  "no_text t l = (snd l = [] \<or> hd (snd l) \<noteq> Txt t)"

text \<open>
  The first line that \<open>VSA_get_EVM\<close> and \<open>VSx_freq\<close> log when they are entered, and the
  line that \<open>run_nr5g_measurement\<close> logs when it decides to reconfigure.
\<close>

definition evm_text :: string where
  "evm_text = ''Measuring EVM''"

definition retune_text :: string where
  "retune_text = ''Setting VSA/VSG frequency to ''"

definition reconfigure_text :: string where
  "reconfigure_text = ''Waveform configuration changed, reconfiguring VSA/VSG''"

text \<open>The lines logged on the way from \<open>s\<close> to \<open>s'\<close>, and whether one starts with \<open>t\<close>.\<close>

definition new_lines :: "'a bench_scheme \<Rightarrow> 'a bench_scheme \<Rightarrow> logline list" where
  "new_lines s s' = drop (length (log s)) (log s')"

definition logged :: "string \<Rightarrow> 'a bench_scheme \<Rightarrow> 'a bench_scheme \<Rightarrow> bool" where
  "logged t s s' = (\<exists>l\<in>set (new_lines s s'). \<not> no_text t l)"

text \<open>The module-level variables of \<open>main.py\<close> are unchanged.\<close>

definition globals_kept :: "nr5g \<Rightarrow> nr5g \<Rightarrow> bool" where
  "globals_kept s s' =
     (results s' = results s \<and> previous_config s' = previous_config s \<and>
      previous_freq s' = previous_freq s)"

text \<open>The line that the handler of \<open>run_nr5g_measurement\<close> logs.\<close>

definition failure_line :: "int \<Rightarrow> exn \<Rightarrow> logline" where
  "failure_line ts e = (ERROR, Txt ''NR5G test set '' # IntP ts # Txt '' failed: '' # exn_msg e)"

section \<open>Concrete benches, drivers and test sets\<close>

text \<open>
  A bench whose sockets answer from the given scripts and whose clock reads 0, 1, 2, ...;
  the waveform and setup files of the default test matrix of \<open>main.py\<close>; the driver that
  \<open>driver_init\<close> builds without files and with these files; and the matching test sets.
\<close>

definition bench_example :: "(nat \<Rightarrow> exn + string) \<Rightarrow> (nat \<Rightarrow> exn + string) \<Rightarrow> bench" where
  "bench_example vsa_replies vsg_replies =
     \<lparr> VSA = \<lparr> reply = vsa_replies, pos = 0, sent = [] \<rparr>,
       VSG = \<lparr> reply = vsg_replies, pos = 0, sent = [] \<rparr>,
       clock = (\<lambda>n. real n), ticks = 0, log = [] \<rparr>"

definition always :: "string \<Rightarrow> nat \<Rightarrow> exn + string" where
  "always r = (\<lambda>n. Inr r)"

definition qorvo_waveform :: string where
  "qorvo_waveform = ''/var/user/5GNR/Qorvo_EVM_opt/5GNR_UL_10MHz_256QAM_30kHz_24RB_0RBO.wv''"

definition qorvo_setup :: string where
  "qorvo_setup = ''C:/r_s/instr/user/Qorvo/5GNR_UL_10MHz_256QAM_30kHz_24RB_0RBO.dfl''"

definition no_file_driver :: "bench \<Rightarrow> nr5g" where
  "no_file_driver b =
     \<lparr> VSA = VSA b, VSG = VSG b, clock = clock b, ticks = ticks b, log = log b,
       self_freq = 6123000000, self_pwr = - 20,
       self_waveform_file = None, self_setup_file = None, self_waveform_params = None,
       self_rb = 51, self_rbo = 0, self_bw = 20, self_mod = ''QAM256'', self_scs = 30,
       self_dupl = ''FDD'', self_ldir = ''UP'',
       results = [], previous_config = None, previous_freq = None \<rparr>"

definition qorvo_driver ::
  "bench \<Rightarrow> (string option \<times> string option) option \<Rightarrow> real option \<Rightarrow> nr5g" where
  "qorvo_driver b prev_config prev_freq =
     \<lparr> VSA = VSA b, VSG = VSG b, clock = clock b, ticks = ticks b, log = log b,
       self_freq = 6123000000, self_pwr = - 20,
       self_waveform_file = Some qorvo_waveform, self_setup_file = Some qorvo_setup,
       self_waveform_params =
         Some \<lparr> signal_type = ''5GNR'', link_direction = ''UL'', bandwidth_mhz = 10,
                modulation = ''256QAM'', subcarrier_spacing_khz = 30, resource_blocks = 24,
                resource_block_offset = 0, duplexing = ''FDD'' \<rparr>,
       self_rb = 24, self_rbo = 0, self_bw = 10, self_mod = ''256QAM'', self_scs = 30,
       self_dupl = ''FDD'', self_ldir = ''UL'',
       results = [], previous_config = prev_config, previous_freq = prev_freq \<rparr>"

definition tc_no_files :: test_config where
  "tc_no_files =
     \<lparr> tc_center_frequency_ghz = 6.123, tc_power_dbm = - 20,
       tc_waveform_file = None, tc_setup_file = None, tc_measure_aclr = Some True \<rparr>"

definition tc_qorvo :: "real \<Rightarrow> test_config" where
  "tc_qorvo ghz =
     \<lparr> tc_center_frequency_ghz = ghz, tc_power_dbm = - 20,
       tc_waveform_file = Some qorvo_waveform, tc_setup_file = Some qorvo_setup,
       tc_measure_aclr = Some True \<rparr>"

text \<open>
  The analyzer of a test set that needs no setup: the sixth reply is the EVM read-back,
  the twelfth the ACLR read-back.
\<close>

definition vsa_measure_replies :: "string \<Rightarrow> nat \<Rightarrow> exn + string" where
  "vsa_measure_replies evm_reply =
     (\<lambda>n. if n = 5 then Inr evm_reply
          else if n = 11 then Inr ''-10.1,-45.2,-45.3,-50.1,-50.2''
          else Inr ''1'')"

section \<open>Statistics of a sample array\<close>






section \<open>Parsing waveform file names\<close>

lemma lit_append: "lit l (l @ r) = Some r"
  by (simp add: lit_def)

lemma digit_not_slash: "is_digit c \<Longrightarrow> c \<noteq> CHR ''/''"
  by (auto simp: is_digit_def)

lemma digit_not_space: "is_digit c \<Longrightarrow> \<not> is_space c"
  by (auto simp: is_digit_def is_space_def)

lemma digit_not_sign: "is_digit c \<Longrightarrow> c \<noteq> CHR ''-'' \<and> c \<noteq> CHR ''+'' \<and> c \<noteq> CHR ''_''"
  by (auto simp: is_digit_def)

lemma digits1_append:
  assumes "digit_string ds" and "\<not> is_digit c"
  shows "digits1 (ds @ c # cs) = Some (ds, c # cs)"
proof -
  have all: "\<forall>x\<in>set ds. is_digit x"
    using assms(1) by (simp add: digit_string_def list_all_iff)
  have "takeWhile is_digit (ds @ c # cs) = ds @ takeWhile is_digit (c # cs)"
    using all by (intro takeWhile_append2) blast
  then have "takeWhile is_digit (ds @ c # cs) = ds"
    using assms(2) by simp
  moreover have "dropWhile is_digit (ds @ c # cs) = dropWhile is_digit (c # cs)"
    using all by (intro dropWhile_append2) blast
  then have "dropWhile is_digit (ds @ c # cs) = c # cs"
    using assms(2) by simp
  moreover have "ds \<noteq> []"
    using assms(1) by (simp add: digit_string_def)
  ultimately show ?thesis
    by (simp add: digits1_def)
qed

lemma alt_link:
  assumes "ld = ''UL'' \<or> ld = ''DL''"
  shows "alt [''UL'', ''DL''] (ld @ r) = Some (ld, r)"
  using assms by (elim disjE) simp_all

lemma modulations_cases:
  "md \<in> set modulations \<Longrightarrow>
     md = ''QPSK'' \<or> md = ''16QAM'' \<or> md = ''64QAM'' \<or> md = ''256QAM'' \<or> md = ''1024QAM''"
  unfolding modulations_def by (simp only: set_simps insert_iff empty_iff) simp

lemma alt_modulation:
  assumes "md \<in> set modulations"
  shows "alt modulations (md @ r) = Some (md, r)"
  using modulations_cases [OF assms]
  by (elim disjE) (simp_all add: modulations_def)

lemma replace_go_skip: "replace_go old new (length s) s = []"
  by (induction s) auto

lemma replace_go_digits:
  assumes "list_all is_digit ds" and "\<not> is_digit c"
  shows "replace_go (c # cs) new 0 (ds @ c # cs) = ds @ new"
  using assms
proof (induction ds)
  case Nil
  then show ?case
    using replace_go_skip [of "c # cs" new cs] by simp
next
  case (Cons d ds)
  then have "d \<noteq> c" by auto
  with Cons show ?case by simp
qed

lemma replace_suffix:
  assumes "digit_string ds" and "\<not> is_digit c"
  shows "replace (c # cs) [] (ds @ c # cs) = ds"
  using replace_go_digits [of ds c cs "[]"] assms
  by (simp add: replace_def digit_string_def)

lemma digitpart_digits:
  assumes "ds \<noteq> []" and "list_all is_digit ds"
  shows "digitpart ds = Some ds"
  using assms
proof (induction ds rule: digitpart.induct)
  case 1
  then show ?case by simp
next
  case (2 c)
  then show ?case by simp
next
  case (3 c d cs)
  then have "d \<noteq> CHR ''_''"
    using digit_not_sign [of d] by simp
  with 3 show ?case by simp
qed

lemma strip_id:
  assumes "s \<noteq> []" and "\<not> is_space (hd s)" and "\<not> is_space (last s)"
  shows "strip s = s"
proof -
  have a: "dropWhile is_space s = s"
    using assms(1,2) by (cases s) auto
  have "rev s \<noteq> []" and "\<not> is_space (hd (rev s))"
    using assms(1,3) by (simp_all add: hd_rev)
  then have b: "dropWhile is_space (rev s) = rev s"
    by (cases "rev s") auto
  show ?thesis
    by (simp add: strip_def a b)
qed

lemma py_int_digits:
  assumes "digit_string ds"
  shows "py_int ds = Inr (int (dec_value ds))"
proof -
  from assms have ne: "ds \<noteq> []" and all: "list_all is_digit ds"
    by (simp_all add: digit_string_def)
  have h: "is_digit (hd ds)" and l: "is_digit (last ds)"
    using ne all by (auto simp: list_all_iff)
  have s: "strip ds = ds"
    using ne h l by (intro strip_id) (auto dest: digit_not_space)
  have sg: "split_sign ds = (False, ds)"
    using ne h digit_not_sign [of "hd ds"] by (cases ds) (auto simp: split_sign_def)
  show ?thesis
    by (simp add: py_int_def s sg digitpart_digits [OF ne all])
qed

lemma basename_append:
  assumes "CHR ''/'' \<notin> set name" and "dir = [] \<or> last dir = CHR ''/''"
  shows "basename (dir @ name) = name"
proof -
  have "takeWhile (\<lambda>c. c \<noteq> CHR ''/'') (rev dir) = []"
    using assms(2) by (cases "rev dir") (auto simp: last_rev [symmetric] simp del: last_rev)
  moreover have "takeWhile (\<lambda>c. c \<noteq> CHR ''/'') (rev name @ rev dir)
      = rev name @ takeWhile (\<lambda>c. c \<noteq> CHR ''/'') (rev dir)"
    using assms(1) by (intro takeWhile_append2) auto
  ultimately show ?thesis
    by (simp add: basename_def)
qed

lemma digit_string_no_slash: "digit_string ds \<Longrightarrow> CHR ''/'' \<notin> set ds"
  by (auto simp: digit_string_def list_all_iff dest: digit_not_slash)

lemma match_waveform_name:
  assumes "ld = ''UL'' \<or> ld = ''DL''" and "md \<in> set modulations"
    and "digit_string bw" and "digit_string scs" and "digit_string rb" and "digit_string rbo"
  shows "match_waveform ''.wv'' (waveform_name ld bw md scs rb rbo) =
           Some (ld, bw @ ''MHz'', md, scs @ ''kHz'', rb @ ''RB'', rbo @ ''RBO'')"
proof -
  have nd: "\<not> is_digit CHR ''M''" "\<not> is_digit CHR ''k''" "\<not> is_digit CHR ''R''"
    by (simp_all add: is_digit_def)
  show ?thesis
    unfolding match_waveform_def waveform_name_def
    by (simp add: lit_def alt_link [OF assms(1)] alt_modulation [OF assms(2)]
        digits1_append [OF assms(3)] digits1_append [OF assms(4)]
        digits1_append [OF assms(5)] digits1_append [OF assms(6)] nd at_end_def
        del: alt.simps)
qed

lemma waveform_name_basename:
  assumes "ld = ''UL'' \<or> ld = ''DL''" and "md \<in> set modulations"
    and "digit_string bw" and "digit_string scs" and "digit_string rb" and "digit_string rbo"
    and "dir = [] \<or> last dir = CHR ''/''"
  shows "basename (dir @ waveform_name ld bw md scs rb rbo) = waveform_name ld bw md scs rb rbo"
proof -
  have "CHR ''/'' \<notin> set ld"
    using assms(1) by (elim disjE) simp_all
  moreover have "CHR ''/'' \<notin> set md"
    using modulations_cases [OF assms(2)] by (elim disjE) simp_all
  ultimately have "CHR ''/'' \<notin> set (waveform_name ld bw md scs rb rbo)"
    using assms(3-6) by (simp add: waveform_name_def digit_string_no_slash)
  then show ?thesis
    using assms(7) by (rule basename_append)
qed

lemma waveform_name_strip:
  "strip (waveform_name ld bw md scs rb rbo) = waveform_name ld bw md scs rb rbo"
proof (rule strip_id)
  show "waveform_name ld bw md scs rb rbo \<noteq> []"
    by (simp add: waveform_name_def)
  show "\<not> is_space (hd (waveform_name ld bw md scs rb rbo))"
    by (simp add: waveform_name_def is_space_def)
  have "last (waveform_name ld bw md scs rb rbo) = CHR ''v''"
    by (simp add: waveform_name_def)
  then show "\<not> is_space (last (waveform_name ld bw md scs rb rbo))"
    by (simp add: is_space_def)
qed

lemma extract_waveform_params_name:
  assumes "ld = ''UL'' \<or> ld = ''DL''" and "md \<in> set modulations"
    and "digit_string bw" and "digit_string scs" and "digit_string rb" and "digit_string rbo"
    and "dir = [] \<or> last dir = CHR ''/''"
  shows "extract_waveform_params (dir @ waveform_name ld bw md scs rb rbo) =
           Some \<lparr> signal_type = ''5GNR'',
                  link_direction = ld,
                  bandwidth_mhz = int (dec_value bw),
                  modulation = md,
                  subcarrier_spacing_khz = int (dec_value scs),
                  resource_blocks = int (dec_value rb),
                  resource_block_offset = int (dec_value rbo),
                  duplexing = (if ld = ''UL'' then ''FDD'' else ''TDD'') \<rparr>"
proof -
  have nd: "\<not> is_digit CHR ''M''" "\<not> is_digit CHR ''k''" "\<not> is_digit CHR ''R''"
    by (simp_all add: is_digit_def)
  have r: "replace ''MHz'' [] (bw @ ''MHz'') = bw" "replace ''kHz'' [] (scs @ ''kHz'') = scs"
    "replace ''RB'' [] (rb @ ''RB'') = rb" "replace ''RBO'' [] (rbo @ ''RBO'') = rbo"
    using assms(3-6) nd by (simp_all add: replace_suffix)
  show ?thesis
    unfolding extract_waveform_params_def
    by (simp only: waveform_name_basename [OF assms] waveform_name_strip
        match_waveform_name [OF assms(1-6)] Let_def option.case prod.case r
        py_int_digits [OF assms(3)] py_int_digits [OF assms(4)]
        py_int_digits [OF assms(5)] py_int_digits [OF assms(6)] sum.case)
qed



section \<open>Running a computation: result and final state\<close>

named_theorems run_simps

lemma returnE_run [run_simps]: "fst (returnE x s) = Inr x" "snd (returnE x s) = s"
  by (simp_all add: returnE_def)

lemma raiseE_run [run_simps]: "fst (raiseE e s) = Inl e" "snd (raiseE e s) = s"
  by (simp_all add: raiseE_def)

lemma liftE_run [run_simps]: "fst (liftE r s) = r" "snd (liftE r s) = s"
  by (simp_all add: liftE_def)

lemma getE_run [run_simps]: "fst (getE f s) = Inr (f s)" "snd (getE f s) = s"
  by (simp_all add: getE_def)

lemma modifyE_run [run_simps]: "fst (modifyE f s) = Inr ()" "snd (modifyE f s) = f s"
  by (simp_all add: modifyE_def)

lemma bindE_run [run_simps]:
  "fst (bindE m f s) = (case fst (m s) of Inl e \<Rightarrow> Inl e | Inr x \<Rightarrow> fst (f x (snd (m s))))"
  "snd (bindE m f s) = (case fst (m s) of Inl e \<Rightarrow> snd (m s) | Inr x \<Rightarrow> snd (f x (snd (m s))))"
  by (simp_all add: bindE_def split: prod.splits sum.splits)

lemma seqE_run [run_simps]:
  "fst (seqE m n s) = (case fst (m s) of Inl e \<Rightarrow> Inl e | Inr x \<Rightarrow> fst (n (snd (m s))))"
  "snd (seqE m n s) = (case fst (m s) of Inl e \<Rightarrow> snd (m s) | Inr x \<Rightarrow> snd (n (snd (m s))))"
  by (simp_all add: seqE_def bindE_def split: prod.splits sum.splits)

lemma voidE_run [run_simps]:
  "fst (voidE m s) = (case fst (m s) of Inl e \<Rightarrow> Inl e | Inr x \<Rightarrow> Inr ())"
  "snd (voidE m s) = snd (m s)"
  by (simp_all add: voidE_def bindE_def returnE_def split: prod.splits sum.splits)

lemma tryE_run [run_simps]:
  "fst (tryE m h s) = (case fst (m s) of Inl e \<Rightarrow> fst (h e (snd (m s))) | Inr x \<Rightarrow> Inr x)"
  "snd (tryE m h s) = (case fst (m s) of Inl e \<Rightarrow> snd (h e (snd (m s))) | Inr x \<Rightarrow> snd (m s))"
  by (simp_all add: tryE_def split: prod.splits sum.splits)

lemma try_ValueError_run [run_simps]:
  "fst (try_ValueError m h s) =
     (case fst (m s) of
        Inl (ValueError t) \<Rightarrow> fst (h (ValueError t) (snd (m s)))
      | Inl (OSError t) \<Rightarrow> Inl (OSError t)
      | Inr x \<Rightarrow> Inr x)"
  "snd (try_ValueError m h s) =
     (case fst (m s) of
        Inl (ValueError t) \<Rightarrow> snd (h (ValueError t) (snd (m s)))
      | Inl (OSError t) \<Rightarrow> snd (m s)
      | Inr x \<Rightarrow> snd (m s))"
  by (simp_all add: try_ValueError_def split: prod.splits sum.splits exn.splits)

lemma logger_run [run_simps]:
  "fst (logger lvl msg s) = Inr ()"
  "snd (logger lvl msg s) = s\<lparr>log := log s @ [(lvl, msg)]\<rparr>"
  by (simp_all add: logger_def)

lemma default_timer_run [run_simps]:
  "fst (default_timer s) = Inr (clock s (ticks s))"
  "snd (default_timer s) = s\<lparr>ticks := Suc (ticks s)\<rparr>"
  by (simp_all add: default_timer_def)

lemma vsa_query_run [run_simps]:
  "fst (vsa_query cmd s) =
     (case reply (VSA s) (pos (VSA s)) of Inl e \<Rightarrow> Inl e | Inr r \<Rightarrow> Inr (strip r))"
  "snd (vsa_query cmd s) =
     s\<lparr>VSA := (VSA s)\<lparr>pos := Suc (pos (VSA s)), sent := sent (VSA s) @ [cmd]\<rparr>\<rparr>"
  by (simp_all add: vsa_query_def sock_io_def split: sum.splits)

lemma vsa_write_run [run_simps]:
  "fst (vsa_write cmd s) =
     (case reply (VSA s) (pos (VSA s)) of Inl e \<Rightarrow> Inl e | Inr r \<Rightarrow> Inr ())"
  "snd (vsa_write cmd s) =
     s\<lparr>VSA := (VSA s)\<lparr>pos := Suc (pos (VSA s)), sent := sent (VSA s) @ [cmd]\<rparr>\<rparr>"
  by (simp_all add: vsa_write_def sock_io_def split: sum.splits)

lemma vsg_query_run [run_simps]:
  "fst (vsg_query cmd s) =
     (case reply (VSG s) (pos (VSG s)) of Inl e \<Rightarrow> Inl e | Inr r \<Rightarrow> Inr (strip r))"
  "snd (vsg_query cmd s) =
     s\<lparr>VSG := (VSG s)\<lparr>pos := Suc (pos (VSG s)), sent := sent (VSG s) @ [cmd]\<rparr>\<rparr>"
  by (simp_all add: vsg_query_def sock_io_def split: sum.splits)

lemma vsg_write_run [run_simps]:
  "fst (vsg_write cmd s) =
     (case reply (VSG s) (pos (VSG s)) of Inl e \<Rightarrow> Inl e | Inr r \<Rightarrow> Inr ())"
  "snd (vsg_write cmd s) =
     s\<lparr>VSG := (VSG s)\<lparr>pos := Suc (pos (VSG s)), sent := sent (VSG s) @ [cmd]\<rparr>\<rparr>"
  by (simp_all add: vsg_write_def sock_io_def split: sum.splits)

lemma method_timer_run [run_simps]:
  "fst (method_timer m s) =
     (case fst (m (s\<lparr>ticks := Suc (ticks s)\<rparr>)) of
        Inl e \<Rightarrow> Inl e
      | Inr r \<Rightarrow> Inr (r, clock (snd (m (s\<lparr>ticks := Suc (ticks s)\<rparr>)))
                           (ticks (snd (m (s\<lparr>ticks := Suc (ticks s)\<rparr>))))
                       - clock s (ticks s)))"
  "snd (method_timer m s) =
     (case fst (m (s\<lparr>ticks := Suc (ticks s)\<rparr>)) of
        Inl e \<Rightarrow> snd (m (s\<lparr>ticks := Suc (ticks s)\<rparr>))
      | Inr r \<Rightarrow> (snd (m (s\<lparr>ticks := Suc (ticks s)\<rparr>)))
                  \<lparr>ticks := Suc (ticks (snd (m (s\<lparr>ticks := Suc (ticks s)\<rparr>))))\<rparr>)"
  by (simp_all add: method_timer_def bindE_def default_timer_def returnE_def
      split: prod.splits sum.splits)

lemma doE_run [run_simps]:
  "fst (doE [] s) = Inr ()" "snd (doE [] s) = s"
  "fst (doE (m # ms) s) = (case fst (m s) of Inl e \<Rightarrow> Inl e | Inr x \<Rightarrow> fst (doE ms (snd (m s))))"
  "snd (doE (m # ms) s) = (case fst (m s) of Inl e \<Rightarrow> snd (m s) | Inr x \<Rightarrow> snd (doE ms (snd (m s))))"
  by (simp_all add: run_simps)

section \<open>Spur search results\<close>

lemma filter_spurs_result:
  "\<exists>ls. filter_spurs fh i xs acc s =
          (Inr (acc @ filter (outside_guard fh) xs), s\<lparr>log := log s @ ls\<rparr>)"
proof (induction xs arbitrary: i acc s)
  case Nil
  have "s = s\<lparr>log := log s @ []\<rparr>" by simp
  then show ?case by (auto simp: returnE_def intro: exI [of _ "[]"])
next
  case (Cons x xs)
  obtain f p where x: "x = (f, p)" by (cases x)
  show ?case
  proof (cases "outside_guard fh x")
    case True
    let ?l = "(INFO, [Txt ''Spur '', IntP (int i), Txt '': '',
                              Fmt ''.6f'' (fdiv_pos f 1000000000), Txt '' GHz, '',
                              Fmt ''.2f'' p, Txt '' dBm''])"
    from Cons [of "Suc i" "acc @ [x]" "s\<lparr>log := log s @ [?l]\<rparr>"]
    obtain ls where "filter_spurs fh (Suc i) xs (acc @ [x]) (s\<lparr>log := log s @ [?l]\<rparr>) =
       (Inr ((acc @ [x]) @ filter (outside_guard fh) xs), s\<lparr>log := log s @ [?l]\<rparr>\<lparr>log := log (s\<lparr>log := log s @ [?l]\<rparr>) @ ls\<rparr>)"
      by blast
    moreover from True x
    have "fgt (fabs (fsub f (Fin fh))) (Fin exclusion_window_hz)"
      by (simp add: outside_guard_def)
    ultimately show ?thesis
      using True x
      by (auto simp: seqE_def bindE_def logger_def intro!: exI [of _ "?l # ls"])
  next
    case False
    let ?l = "(DEBUG, [Txt ''Excluding spur at '', Fmt ''.6f'' (fdiv_pos f 1000000000),
                               Txt '' GHz (near fundamental '',
                               Fmt ''.3f'' (Fin (fh / 1000000000)), Txt '' GHz)''])"
    from Cons [of "Suc i" acc "s\<lparr>log := log s @ [?l]\<rparr>"]
    obtain ls where "filter_spurs fh (Suc i) xs acc (s\<lparr>log := log s @ [?l]\<rparr>) =
       (Inr (acc @ filter (outside_guard fh) xs), s\<lparr>log := log s @ [?l]\<rparr>\<lparr>log := log (s\<lparr>log := log s @ [?l]\<rparr>) @ ls\<rparr>)"
      by blast
    moreover from False x
    have "\<not> fgt (fabs (fsub f (Fin fh))) (Fin exclusion_window_hz)"
      by (simp add: outside_guard_def)
    ultimately show ?thesis
      using False x
      by (auto simp: seqE_def bindE_def logger_def intro!: exI [of _ "?l # ls"])
  qed
qed

lemma filter_spurs_fst: "fst (filter_spurs fh i xs acc s) = Inr (acc @ filter (outside_guard fh) xs)"
  using filter_spurs_result [of fh i xs acc s] by auto

lemma get_results_finish_fst: "fst (get_results_finish spurs s) = Inr spurs"
  by (simp add: get_results_finish_def run_simps)




lemma get_results_try_mismatch:
  assumes "reply (VSA s) (pos (VSA s)) = Inr c" and "py_int (strip (strip c)) = Inr n" and "0 < n"
    and "reply (VSA s) (pos (VSA s) + 1) = Inr a"
    and "reply (VSA s) (pos (VSA s) + 2) = Inr x" and "float_list (strip (strip x)) = Inr freqs"
    and "reply (VSA s) (pos (VSA s) + 3) = Inr y" and "float_list (strip (strip y)) = Inr powers"
    and "int (length freqs) \<noteq> n \<or> int (length powers) \<noteq> n"
  shows "fst (get_results_try s) = Inr []"
  using assms
  by (auto simp add: get_results_try_def run_simps filter_spurs_fst get_results_finish_fst
      eval_nat_numeral)

lemmas parse_defs = py_float_def py_int_def strip_def is_space_def split_sign_def lower_def
  mantissa_def exponent_def is_e_def scale10_def dec_value_def digit_val_def is_digit_def
  float_list_def float_error_def

lemma dropWhile_id: "xs = [] \<or> \<not> P (hd xs) \<Longrightarrow> dropWhile P xs = xs"
  by (cases xs) auto

lemma strip_strip: "strip (strip s) = strip s"
proof -
  define t where "t = dropWhile is_space s"
  define u where "u = rev (dropWhile is_space (rev t))"
  have t: "t = [] \<or> \<not> is_space (hd t)"
    unfolding t_def using hd_dropWhile [of is_space s] by blast
  have ru: "rev u = dropWhile is_space (rev t)"
    by (simp add: u_def)
  have "rev u = [] \<or> \<not> is_space (hd (rev u))"
    unfolding ru using hd_dropWhile [of is_space "rev t"] by blast
  then have a: "dropWhile is_space (rev u) = rev u"
    by (rule dropWhile_id)
  have "rev t = takeWhile is_space (rev t) @ rev u"
    by (simp add: ru)
  then have "t = u @ rev (takeWhile is_space (rev t))"
    by (metis rev_append rev_rev_ident)
  then obtain w where "t = u @ w" ..
  then have "u = [] \<or> hd u = hd t"
    by (cases u) auto
  moreover have "u \<noteq> [] \<Longrightarrow> t \<noteq> []"
    using \<open>t = u @ w\<close> by simp
  ultimately have "u = [] \<or> \<not> is_space (hd u)"
    using t by auto
  then have b: "dropWhile is_space u = u"
    by (rule dropWhile_id)
  have "strip s = u"
    by (simp add: strip_def u_def t_def)
  moreover have "strip u = u"
    by (simp add: strip_def a b)
  ultimately show ?thesis by simp
qed




text \<open>
  C5. When the count reply is a positive number \<open>n\<close> and the frequency list or the power
  list does not hold exactly \<open>n\<close> values, \<open>get_results\<close> returns the empty list. It
  returns it from the \<open>try\<close> block, after logging one warning: no exception is raised
  and the handler does not run. A count of 3 with 2 frequencies is the witness.
\<close>

theorem get_results_count_mismatch:
  fixes s :: spur
  assumes "reply (VSA s) (pos (VSA s)) = Inr c" and "py_int (strip c) = Inr n" and "0 < n"
    and "reply (VSA s) (pos (VSA s) + 1) = Inr a"
    and "reply (VSA s) (pos (VSA s) + 2) = Inr x" and "float_list (strip x) = Inr freqs"
    and "reply (VSA s) (pos (VSA s) + 3) = Inr y" and "float_list (strip y) = Inr powers"
    and "int (length freqs) \<noteq> n \<or> int (length powers) \<noteq> n"
  shows "(\<exists>dt. fst (get_results s) = Inr ([], dt)) \<and>
    log (snd (get_results s)) = log s @
           [(WARNING, [Txt ''Mismatch in spur data: expected '', IntP n,
                     Txt '' spurs, got '', IntP (int (length freqs)),
                     Txt '' frequencies and '', IntP (int (length powers)), Txt '' powers''])]"
proof -
  let ?s1 = "s\<lparr>ticks := Suc (ticks s)\<rparr>"
  have "fst (get_results_try ?s1) = Inr []"
    using assms by (intro get_results_try_mismatch [where c = c and n = n and a = a and x = x and y = y])
        (simp_all add: strip_strip)
  then have A: "\<exists>dt. fst (get_results s) = Inr ([], dt)"
    by (simp add: get_results_def run_simps)
  have B: "log (snd (get_results s)) = log s @
           [(WARNING, [Txt ''Mismatch in spur data: expected '', IntP n,
                     Txt '' spurs, got '', IntP (int (length freqs)),
                     Txt '' frequencies and '', IntP (int (length powers)), Txt '' powers''])]"
    using assms
    by (auto simp add: get_results_def get_results_try_def run_simps strip_strip eval_nat_numeral)
  from A B show ?thesis by blast
qed

theorem get_results_count_mismatch_witness:
  "(\<exists>dt. fst (get_results (spur_example three_counted_two_returned)) = Inr ([], dt)) \<and>
   log (snd (get_results (spur_example three_counted_two_returned))) =
     [(WARNING, [Txt ''Mismatch in spur data: expected '', IntP 3,
                     Txt '' spurs, got '', IntP 2,
                     Txt '' frequencies and '', IntP 3, Txt '' powers''])]"
proof -
  let ?s = "spur_example three_counted_two_returned"
  have "(\<exists>dt. fst (get_results ?s) = Inr ([], dt)) \<and>
    log (snd (get_results ?s)) = log ?s @
           [(WARNING, [Txt ''Mismatch in spur data: expected '', IntP 3,
                     Txt '' spurs, got '', IntP (int (length [Fin 2430000000, Fin 2460000000])),
                     Txt '' frequencies and '',
                     IntP (int (length [Fin (- 80.5), Fin (- 101.25), Fin (- 99)])), Txt '' powers''])]"
    by (rule get_results_count_mismatch [where c = "''3''" and a = "[]"
          and x = "''2430000000,2460000000''" and y = "''-80.5,-101.25,-99''"])
      (simp_all add: spur_example_def three_counted_two_returned_def parse_defs)
  then show ?thesis
    by (simp add: spur_example_def)
qed

section \<open>Frame rules\<close>

named_theorems stays_intros

lemma staysD: "stays R m \<Longrightarrow> R s (snd (m s))"
  by (simp add: stays_def)

lemma frame_refl: "frame R \<Longrightarrow> R s s"
  by (simp add: frame_def)

lemma frame_trans: "frame R \<Longrightarrow> R a b \<Longrightarrow> R b c \<Longrightarrow> R a c"
  unfolding frame_def by blast

lemma stays_returnE [stays_intros]: "frame R \<Longrightarrow> stays R (returnE x)"
  by (simp add: stays_def run_simps frame_refl)

lemma stays_raiseE [stays_intros]: "frame R \<Longrightarrow> stays R (raiseE e)"
  by (simp add: stays_def run_simps frame_refl)

lemma stays_liftE [stays_intros]: "frame R \<Longrightarrow> stays R (liftE r)"
  by (simp add: stays_def run_simps frame_refl)

lemma stays_getE [stays_intros]: "frame R \<Longrightarrow> stays R (getE f)"
  by (simp add: stays_def run_simps frame_refl)

lemma stays_bindE [stays_intros]:
  assumes "frame R" and "stays R m" and "\<And>x. stays R (f x)"
  shows "stays R (bindE m f)"
  unfolding stays_def
proof
  fix s
  have a: "R s (snd (m s))" using assms(2) by (rule staysD)
  show "R s (snd (bindE m f s))"
  proof (cases "fst (m s)")
    case (Inl e)
    with a show ?thesis by (simp add: run_simps)
  next
    case (Inr x)
    have "R (snd (m s)) (snd (f x (snd (m s))))" using assms(3) by (rule staysD)
    with a have "R s (snd (f x (snd (m s))))" by (rule frame_trans [OF assms(1)])
    with Inr show ?thesis by (simp add: run_simps)
  qed
qed

lemma stays_seqE [stays_intros]:
  "frame R \<Longrightarrow> stays R m \<Longrightarrow> stays R n \<Longrightarrow> stays R (seqE m n)"
  unfolding seqE_def by (rule stays_bindE)

lemma stays_voidE [stays_intros]: "stays R m \<Longrightarrow> stays R (voidE m)"
  by (simp add: stays_def run_simps)

lemma stays_tryE [stays_intros]:
  assumes "frame R" and "stays R m" and "\<And>e. stays R (h e)"
  shows "stays R (tryE m h)"
  unfolding stays_def
proof
  fix s
  have a: "R s (snd (m s))" using assms(2) by (rule staysD)
  show "R s (snd (tryE m h s))"
  proof (cases "fst (m s)")
    case (Inr x)
    with a show ?thesis by (simp add: run_simps)
  next
    case (Inl e)
    have "R (snd (m s)) (snd (h e (snd (m s))))" using assms(3) by (rule staysD)
    with a have "R s (snd (h e (snd (m s))))" by (rule frame_trans [OF assms(1)])
    with Inl show ?thesis by (simp add: run_simps)
  qed
qed

lemma stays_try_ValueError [stays_intros]:
  assumes "frame R" and "stays R m" and "\<And>e. stays R (h e)"
  shows "stays R (try_ValueError m h)"
  unfolding stays_def
proof
  fix s
  have a: "R s (snd (m s))" using assms(2) by (rule staysD)
  have b: "R s (snd (h e (snd (m s))))" for e
  proof -
    have "R (snd (m s)) (snd (h e (snd (m s))))" using assms(3) by (rule staysD)
    with a show ?thesis by (rule frame_trans [OF assms(1)])
  qed
  show "R s (snd (try_ValueError m h s))"
    using a b by (simp add: run_simps split: sum.splits exn.splits)
qed

lemma stays_doE_Nil [stays_intros]: "frame R \<Longrightarrow> stays R (doE [])"
  by (simp add: stays_returnE)

lemma stays_doE_Cons [stays_intros]:
  "frame R \<Longrightarrow> stays R m \<Longrightarrow> stays R (doE ms) \<Longrightarrow> stays R (doE (m # ms))"
  by (simp add: stays_seqE)

lemma stays_if [stays_intros]:
  "stays R a \<Longrightarrow> stays R b \<Longrightarrow> stays R (if c then a else b)"
  by simp

lemma stays_case_prod [stays_intros]:
  "(\<And>a b. stays R (f a b)) \<Longrightarrow> stays R (case_prod f x)"
  by (cases x) simp

lemma stays_vsa_query [stays_intros]: "frame R \<Longrightarrow> stays R (vsa_query cmd)"
  by (simp add: stays_def run_simps frame_def)

lemma stays_vsa_write [stays_intros]: "frame R \<Longrightarrow> stays R (vsa_write cmd)"
  by (simp add: stays_def run_simps frame_def)

lemma stays_vsg_query [stays_intros]: "frame R \<Longrightarrow> stays R (vsg_query cmd)"
  by (simp add: stays_def run_simps frame_def)

lemma stays_vsg_write [stays_intros]: "frame R \<Longrightarrow> stays R (vsg_write cmd)"
  by (simp add: stays_def run_simps frame_def)

lemma stays_method_timer [stays_intros]:
  assumes "frame R" and "stays R m"
  shows "stays R (method_timer m)"
proof -
  have "stays R default_timer"
    using assms(1) by (simp add: stays_def run_simps frame_def)
  then show ?thesis
    unfolding method_timer_def
    by (intro stays_bindE stays_returnE assms)
qed

lemma frame_logs_only: "frame (logs_only P)"
  by (auto simp: frame_def logs_only_def)

lemma frame_globals_kept: "frame globals_kept"
  by (simp add: frame_def globals_kept_def)

lemma logs_only_logger [stays_intros]: "P (lvl, msg) \<Longrightarrow> stays (logs_only P) (logger lvl msg)"
  by (simp add: stays_def run_simps logs_only_def)

lemma globals_kept_logger [stays_intros]: "stays globals_kept (logger lvl msg)"
  by (simp add: stays_def run_simps globals_kept_def)

lemma stays_modifyE: "(\<And>s. R s (f s)) \<Longrightarrow> stays R (modifyE f)"
  by (simp add: stays_def run_simps)

lemma stays_weaken: "(\<And>s s'. R s s' \<Longrightarrow> R' s s') \<Longrightarrow> stays R m \<Longrightarrow> stays R' m"
  by (simp add: stays_def)

lemma logs_only_grows: "logs_only P s s' \<Longrightarrow> logs_only (\<lambda>_. True) s s'"
  by (auto simp: logs_only_def list_all_iff)

lemma frame_same_results: "frame (\<lambda>s s'. results s' = results s)"
  by (simp add: frame_def)

lemma same_results_logger [stays_intros]:
  "stays (\<lambda>s s'. results s' = results s) (logger lvl msg)"
  by (simp add: stays_def run_simps)

subsection \<open>The driver methods\<close>

lemmas nr5g_method_defs = VSG_pwr_def VSG_Config_def VSG_Config_try_def VSA_Config_def
  VSA_Config_try_def VSx_freq_def VSA_sweep_def VSA_get_info_def VSA_get_EVM_def
  VSA_get_EVM_try_def VSA_get_ACLR_def VSA_get_ACLR_try_def

lemmas text_defs = no_text_def evm_text_def retune_text_def reconfigure_text_def
  start_message_def

lemma globals_methods:
  "stays globals_kept (VSG_pwr p)"
  "stays globals_kept VSG_Config"
  "stays globals_kept (VSA_Config f)"
  "stays globals_kept (VSx_freq freq)"
  "stays globals_kept VSA_sweep"
  "stays globals_kept VSA_get_info"
  "stays globals_kept VSA_get_EVM"
  "stays globals_kept VSA_get_ACLR"
  unfolding nr5g_method_defs Let_def
  by (intro stays_intros frame_globals_kept stays_modifyE; simp add: globals_kept_def)+

lemma results_methods:
  "stays (\<lambda>s s'. results s' = results s) (VSG_pwr p)"
  "stays (\<lambda>s s'. results s' = results s) VSG_Config"
  "stays (\<lambda>s s'. results s' = results s) (VSA_Config f)"
  "stays (\<lambda>s s'. results s' = results s) (VSx_freq freq)"
  "stays (\<lambda>s s'. results s' = results s) VSA_sweep"
  "stays (\<lambda>s s'. results s' = results s) VSA_get_info"
  "stays (\<lambda>s s'. results s' = results s) VSA_get_EVM"
  "stays (\<lambda>s s'. results s' = results s) VSA_get_ACLR"
  by (rule stays_weaken [OF _ globals_methods(1)] stays_weaken [OF _ globals_methods(2)]
      stays_weaken [OF _ globals_methods(3)] stays_weaken [OF _ globals_methods(4)]
      stays_weaken [OF _ globals_methods(5)] stays_weaken [OF _ globals_methods(6)]
      stays_weaken [OF _ globals_methods(7)] stays_weaken [OF _ globals_methods(8)],
      simp add: globals_kept_def)+

lemma no_evm_methods:
  "stays (logs_only (no_text evm_text)) (VSG_pwr p)"
  "stays (logs_only (no_text evm_text)) VSG_Config"
  "stays (logs_only (no_text evm_text)) (VSA_Config f)"
  "stays (logs_only (no_text evm_text)) (VSx_freq freq)"
  "stays (logs_only (no_text evm_text)) VSA_sweep"
  "stays (logs_only (no_text evm_text)) VSA_get_info"
  "stays (logs_only (no_text evm_text)) VSA_get_ACLR"
  unfolding nr5g_method_defs Let_def
  by (intro stays_intros frame_logs_only stays_modifyE; simp add: text_defs logs_only_def)+

lemma no_retune_methods:
  "stays (logs_only (no_text retune_text)) (VSG_pwr p)"
  "stays (logs_only (no_text retune_text)) VSG_Config"
  "stays (logs_only (no_text retune_text)) (VSA_Config f)"
  "stays (logs_only (no_text retune_text)) VSA_sweep"
  "stays (logs_only (no_text retune_text)) VSA_get_info"
  "stays (logs_only (no_text retune_text)) VSA_get_EVM"
  "stays (logs_only (no_text retune_text)) VSA_get_ACLR"
  unfolding nr5g_method_defs Let_def
  by (intro stays_intros frame_logs_only stays_modifyE; simp add: text_defs logs_only_def)+

lemma no_reconfigure_methods:
  "stays (logs_only (no_text reconfigure_text)) (VSG_pwr p)"
  "stays (logs_only (no_text reconfigure_text)) VSG_Config"
  "stays (logs_only (no_text reconfigure_text)) (VSA_Config f)"
  "stays (logs_only (no_text reconfigure_text)) (VSx_freq freq)"
  "stays (logs_only (no_text reconfigure_text)) VSA_sweep"
  "stays (logs_only (no_text reconfigure_text)) VSA_get_info"
  "stays (logs_only (no_text reconfigure_text)) VSA_get_EVM"
  "stays (logs_only (no_text reconfigure_text)) VSA_get_ACLR"
  unfolding nr5g_method_defs Let_def
  by (intro stays_intros frame_logs_only stays_modifyE; simp add: text_defs logs_only_def)+

subsection \<open>The steps of a test set\<close>

lemma results_nr5g_setup: "stays (\<lambda>s s'. results s' = results s) (nr5g_setup tc ts)"
  unfolding nr5g_setup_def nr5g_reconfigure_def nr5g_retune_def Let_def
  by (intro stays_intros frame_same_results stays_modifyE results_methods; simp)+

lemma no_evm_nr5g_setup: "stays (logs_only (no_text evm_text)) (nr5g_setup tc ts)"
  unfolding nr5g_setup_def nr5g_reconfigure_def nr5g_retune_def Let_def
  by (intro stays_intros frame_logs_only stays_modifyE no_evm_methods;
      simp add: text_defs logs_only_def)+

lemma no_retune_nr5g_reconfigure:
  "stays (logs_only (no_text retune_text)) (nr5g_reconfigure c f t)"
  unfolding nr5g_reconfigure_def Let_def
  by (intro stays_intros frame_logs_only stays_modifyE no_retune_methods;
      simp add: text_defs logs_only_def)+

lemma no_retune_nr5g_measure:
  "stays (logs_only (no_text retune_text)) (nr5g_measure tc ts f t)"
  unfolding nr5g_measure_def nr5g_aclr_def Let_def
  by (intro stays_intros frame_logs_only stays_modifyE no_retune_methods;
      simp add: text_defs logs_only_def)+

lemma no_reconfigure_nr5g_retune:
  "stays (logs_only (no_text reconfigure_text)) (nr5g_retune f t)"
  unfolding nr5g_retune_def Let_def
  by (intro stays_intros frame_logs_only stays_modifyE no_reconfigure_methods;
      simp add: text_defs logs_only_def)+

lemma no_reconfigure_nr5g_measure:
  "stays (logs_only (no_text reconfigure_text)) (nr5g_measure tc ts f t)"
  unfolding nr5g_measure_def nr5g_aclr_def Let_def
  by (intro stays_intros frame_logs_only stays_modifyE no_reconfigure_methods;
      simp add: text_defs logs_only_def)+

lemma grows_nr5g_measure:
  "stays (logs_only (\<lambda>_. True)) (nr5g_measure tc ts f t)"
  by (rule stays_weaken [OF logs_only_grows no_retune_nr5g_measure])

lemma grows_nr5g_setup:
  "stays (logs_only (\<lambda>_. True)) (nr5g_setup tc ts)"
  by (rule stays_weaken [OF logs_only_grows no_evm_nr5g_setup])

lemma results_nr5g_aclr: "stays (\<lambda>s s'. results s' = results s) (nr5g_aclr m t)"
  unfolding nr5g_aclr_def
  by (intro stays_intros frame_same_results stays_modifyE results_methods; simp)+

lemma globals_nr5g_aclr: "stays globals_kept (nr5g_aclr m t)"
  unfolding nr5g_aclr_def
  by (intro stays_intros frame_globals_kept stays_modifyE globals_methods;
      simp add: globals_kept_def)+

lemma grows_methods:
  "stays (logs_only (\<lambda>_. True)) (VSG_pwr p)"
  "stays (logs_only (\<lambda>_. True)) VSA_sweep"
  "stays (logs_only (\<lambda>_. True)) VSA_get_info"
  "stays (logs_only (\<lambda>_. True)) VSA_get_EVM"
  "stays (logs_only (\<lambda>_. True)) VSA_get_ACLR"
  "stays (logs_only (\<lambda>_. True)) (nr5g_aclr m t)"
  unfolding nr5g_method_defs nr5g_aclr_def Let_def
  by (intro stays_intros frame_logs_only stays_modifyE; simp add: logs_only_def)+

lemma frame_same_config: "frame (\<lambda>s s'. previous_config s' = previous_config s)"
  by (simp add: frame_def)

lemma same_config_logger [stays_intros]:
  "stays (\<lambda>s s'. previous_config s' = previous_config s) (logger lvl msg)"
  by (simp add: stays_def run_simps)

lemma config_methods:
  "stays (\<lambda>s s'. previous_config s' = previous_config s) (VSG_pwr p)"
  "stays (\<lambda>s s'. previous_config s' = previous_config s) VSA_sweep"
  "stays (\<lambda>s s'. previous_config s' = previous_config s) VSA_get_info"
  "stays (\<lambda>s s'. previous_config s' = previous_config s) VSA_get_EVM"
  "stays (\<lambda>s s'. previous_config s' = previous_config s) VSA_get_ACLR"
  by (rule stays_weaken [OF _ globals_methods(1)] stays_weaken [OF _ globals_methods(5)]
      stays_weaken [OF _ globals_methods(6)] stays_weaken [OF _ globals_methods(7)]
      stays_weaken [OF _ globals_methods(8)],
      simp add: globals_kept_def)+

lemma config_nr5g_measure:
  "stays (\<lambda>s s'. previous_config s' = previous_config s) (nr5g_measure tc ts f t)"
  unfolding nr5g_measure_def nr5g_aclr_def Let_def
  by (intro stays_intros frame_same_config stays_modifyE config_methods; simp)+

section \<open>The driver on concrete input, and the EVM measurement\<close>

lemma driver_init_no_files:
  "driver_init b [] None None 6123000000 (- 20) None None = Inr (no_file_driver b)"
  by (simp add: driver_init_def validate_file_names_def validate_file_name_def given_def
      no_file_driver_def)

lemma qorvo_waveform_params:
  "extract_waveform_params qorvo_waveform =
     Some \<lparr> signal_type = ''5GNR'', link_direction = ''UL'', bandwidth_mhz = 10,
            modulation = ''256QAM'', subcarrier_spacing_khz = 30, resource_blocks = 24,
            resource_block_offset = 0, duplexing = ''FDD'' \<rparr>"
  using extract_waveform_params_name
    [of "''UL''" "''256QAM''" "''10''" "''30''" "''24''" "''0''" "''/var/user/5GNR/Qorvo_EVM_opt/''"]
  by (simp add: modulations_def digit_string_def is_digit_def waveform_name_def dec_value_def
      digit_val_def qorvo_waveform_def)

lemma driver_init_qorvo:
  "driver_init b [] pc pf 6123000000 (- 20) (Some qorvo_waveform) (Some qorvo_setup) =
     Inr (qorvo_driver b pc pf)"
proof -
  have w: "match_waveform ''.wv'' (strip (basename qorvo_waveform)) \<noteq> None"
    by (simp add: qorvo_waveform_def basename_def strip_def is_space_def match_waveform_def
        lit_def digits1_def is_digit_def modulations_def at_end_def)
  have d: "match_waveform ''.dfl'' (strip (basename qorvo_setup)) \<noteq> None"
    by (simp add: qorvo_setup_def basename_def strip_def is_space_def match_waveform_def
        lit_def digits1_def is_digit_def modulations_def at_end_def)
  have g: "given (Some qorvo_waveform)" "given (Some qorvo_setup)"
    by (simp_all add: given_def qorvo_waveform_def qorvo_setup_def)
  from w d have wd: "(match_waveform ''.wv'' (strip (basename qorvo_waveform)) = None) = False"
    "(match_waveform ''.dfl'' (strip (basename qorvo_setup)) = None) = False"
    by simp_all
  show ?thesis
    by (simp only: driver_init_def validate_file_names_def validate_file_name_def g wd
        Let_def if_True if_False sum.case option.sel qorvo_waveform_params qorvo_driver_def
        option.case waveform_params.simps)
qed

subsection \<open>What the short methods do\<close>

lemma VSG_pwr_run:
  "fst (VSG_pwr p s) = (case reply (VSG s) (pos (VSG s)) of Inl e \<Rightarrow> Inl e | Inr r \<Rightarrow> Inr ())"
  "VSA (snd (VSG_pwr p s)) = VSA s"
  "reply (VSG (snd (VSG_pwr p s))) = reply (VSG s)"
  "pos (VSG (snd (VSG_pwr p s))) = Suc (pos (VSG s))"
  by (simp_all add: VSG_pwr_def run_simps split: sum.splits)

lemma VSA_get_info_run:
  "\<exists>c dt. fst (VSA_get_info s) = Inr (c, dt)"
  "VSA (snd (VSA_get_info s)) = VSA s"
  "VSG (snd (VSA_get_info s)) = VSG s"
  by (simp_all add: VSA_get_info_def run_simps)

lemma VSA_sweep_run:
  "\<exists>dt. fst (VSA_sweep s) = Inr ((), dt)"
  "VSA (snd (VSA_sweep s)) = VSA s"
  "VSG (snd (VSA_sweep s)) = VSG s"
  by (simp_all add: VSA_sweep_def run_simps)

lemma VSA_get_ACLR_returns: "\<exists>a dt. fst (VSA_get_ACLR s) = Inr (a, dt)"
  by (simp add: VSA_get_ACLR_def run_simps split: sum.splits)

subsection \<open>The EVM measurement\<close>

lemma VSA_get_EVM_returns:
  "\<exists>v dt. fst (VSA_get_EVM s) = Inr (v, dt)"
  by (simp add: VSA_get_EVM_def run_simps split: sum.splits)

lemma VSA_get_EVM_try_value:
  assumes "fst (VSA_get_EVM_try s) = Inr v" and "v \<noteq> NaN"
  shows "\<exists>a b pep_str pep c d e evm_str.
           reply (VSA s) (pos (VSA s)) = Inr a \<and>
           reply (VSA s) (pos (VSA s) + 1) = Inr b \<and>
           reply (VSG s) (pos (VSG s)) = Inr pep_str \<and> py_float (strip pep_str) = Inr pep \<and>
           reply (VSA s) (pos (VSA s) + 2) = Inr c \<and>
           reply (VSA s) (pos (VSA s) + 3) = Inr d \<and>
           reply (VSA s) (pos (VSA s) + 4) = Inr e \<and>
           reply (VSA s) (pos (VSA s) + 5) = Inr evm_str \<and> py_float (strip evm_str) = Inr v"
  using assms
  by (simp add: VSA_get_EVM_try_def run_simps Let_def eval_nat_numeral
      split: sum.splits exn.splits)

lemma VSA_get_EVM_value:
  assumes "fst (VSA_get_EVM s) = Inr (v, dt)" and "v \<noteq> NaN"
  shows "\<exists>a b pep_str pep c d e evm_str.
           reply (VSA s) (pos (VSA s)) = Inr a \<and>
           reply (VSA s) (pos (VSA s) + 1) = Inr b \<and>
           reply (VSG s) (pos (VSG s)) = Inr pep_str \<and> py_float (strip pep_str) = Inr pep \<and>
           reply (VSA s) (pos (VSA s) + 2) = Inr c \<and>
           reply (VSA s) (pos (VSA s) + 3) = Inr d \<and>
           reply (VSA s) (pos (VSA s) + 4) = Inr e \<and>
           reply (VSA s) (pos (VSA s) + 5) = Inr evm_str \<and> py_float (strip evm_str) = Inr v"
proof -
  let ?s1 = "s\<lparr>ticks := Suc (ticks s), log := log s @ [(INFO, [Txt ''Measuring EVM''])]\<rparr>"
  from assms have "fst (VSA_get_EVM_try ?s1) = Inr v"
    by (simp add: VSA_get_EVM_def run_simps split: sum.splits)
  from VSA_get_EVM_try_value [OF this assms(2)] show ?thesis
    by simp
qed

lemma VSA_get_EVM_failure:
  assumes "(\<exists>i<6. \<exists>e. reply (VSA s) (pos (VSA s) + i) = Inl e) \<or>
      (\<exists>e. reply (VSG s) (pos (VSG s)) = Inl e) \<or>
      (\<exists>r e. reply (VSG s) (pos (VSG s)) = Inr r \<and> py_float (strip r) = Inl e) \<or>
      (\<exists>r e. reply (VSA s) (pos (VSA s) + 5) = Inr r \<and> py_float (strip r) = Inl e)"
    and "fst (VSA_get_EVM s) = Inr (v, dt)"
  shows "v = NaN"
proof (rule ccontr)
  assume "v \<noteq> NaN"
  from VSA_get_EVM_value [OF assms(2) this]
  obtain a b pep_str pep c d e evm_str where ok:
    "reply (VSA s) (pos (VSA s)) = Inr a"
    "reply (VSA s) (pos (VSA s) + 1) = Inr b"
    "reply (VSG s) (pos (VSG s)) = Inr pep_str" "py_float (strip pep_str) = Inr pep"
    "reply (VSA s) (pos (VSA s) + 2) = Inr c"
    "reply (VSA s) (pos (VSA s) + 3) = Inr d"
    "reply (VSA s) (pos (VSA s) + 4) = Inr e"
    "reply (VSA s) (pos (VSA s) + 5) = Inr evm_str" "py_float (strip evm_str) = Inr v"
    by blast
  have "\<not> (\<exists>e. reply (VSA s) (pos (VSA s) + i) = Inl e)" if "i < 6" for i
  proof -
    from that have "i = 0 \<or> i = 1 \<or> i = 2 \<or> i = 3 \<or> i = 4 \<or> i = 5" by arith
    then show ?thesis using ok by (elim disjE) simp_all
  qed
  with assms(1) ok show False by auto
qed

text \<open>
  C10. \<open>VSA_get_EVM\<close> never raises: from every state it returns a value paired with
  the elapsed time. Whenever a step of its sequence fails (one of the six analyzer
  operations or the generator query raises, or the peak-envelope-power reply or the EVM
  reply is not a number), the value returned is NaN.
\<close>

theorem VSA_get_EVM_never_raises:
  "\<exists>v dt. fst (VSA_get_EVM s) = Inr (v, dt) \<and>
     ((\<exists>i<6. \<exists>e. reply (VSA s) (pos (VSA s) + i) = Inl e) \<or>
      (\<exists>e. reply (VSG s) (pos (VSG s)) = Inl e) \<or>
      (\<exists>r e. reply (VSG s) (pos (VSG s)) = Inr r \<and> py_float (strip r) = Inl e) \<or>
      (\<exists>r e. reply (VSA s) (pos (VSA s) + 5) = Inr r \<and> py_float (strip r) = Inl e)
      \<longrightarrow> v = NaN)"
proof -
  from VSA_get_EVM_returns [of s] obtain v dt where r: "fst (VSA_get_EVM s) = Inr (v, dt)"
    by blast
  then have "(\<exists>i<6. \<exists>e. reply (VSA s) (pos (VSA s) + i) = Inl e) \<or>
      (\<exists>e. reply (VSG s) (pos (VSG s)) = Inl e) \<or>
      (\<exists>r e. reply (VSG s) (pos (VSG s)) = Inr r \<and> py_float (strip r) = Inl e) \<or>
      (\<exists>r e. reply (VSA s) (pos (VSA s) + 5) = Inr r \<and> py_float (strip r) = Inl e)
      \<longrightarrow> v = NaN"
    using VSA_get_EVM_failure [of s v dt] by blast
  with r show ?thesis by blast
qed

lemmas parse_defs2 = py_float_def py_int_def strip_def is_space_def split_sign_def lower_def
  mantissa_def exponent_def is_e_def scale10_def dec_value_def digit_val_def is_digit_def
  float_list_def float_error_def

theorem VSA_get_EVM_never_raises_witness:
  "\<exists>dt. fst (VSA_get_EVM (qorvo_driver (bench_example (always ''1'') (always ''N/A'')) None None))
         = Inr (NaN, dt)"
proof -
  let ?s = "qorvo_driver (bench_example (always ''1'') (always ''N/A'')) None None"
  have "reply (VSG ?s) (pos (VSG ?s)) = Inr ''N/A'' \<and>
        py_float (strip ''N/A'') = Inl (float_error (strip ''N/A''))"
    by (simp add: qorvo_driver_def bench_example_def always_def parse_defs2)
  then have "\<exists>r e. reply (VSG ?s) (pos (VSG ?s)) = Inr r \<and> py_float (strip r) = Inl e"
    by blast
  with VSA_get_EVM_never_raises [of ?s] show ?thesis
    by blast
qed

section \<open>One test set, step by step\<close>

subsection \<open>Lines logged between two states\<close>

lemma logs_only_new_lines:
  assumes "logs_only P s s'"
  shows "log s' = log s @ new_lines s s'" and "list_all P (new_lines s s')"
  using assms by (auto simp: logs_only_def new_lines_def)

lemma not_logged: "logs_only (no_text t) s s' \<Longrightarrow> \<not> logged t s s'"
  using logs_only_new_lines(2) [of "no_text t" s s']
  by (auto simp: logged_def list_all_iff)

lemma new_lines_append:
  assumes "logs_only P s s'" and "logs_only Q s' s''"
  shows "new_lines s s'' = new_lines s s' @ new_lines s' s''"
proof -
  have "log s'' = log s @ new_lines s s' @ new_lines s' s''"
    using logs_only_new_lines(1) [OF assms(1)] logs_only_new_lines(1) [OF assms(2)] by simp
  then show ?thesis
    by (simp add: new_lines_def [of s s''])
qed

lemma logged_append:
  assumes "logs_only P s s'" and "logs_only Q s' s''"
  shows "logged t s s'' \<longleftrightarrow> logged t s s' \<or> logged t s' s''"
  by (auto simp: logged_def new_lines_append [OF assms])

lemma logged_before:
  assumes "logs_only P s s'" and "logs_only (no_text t) s' s''"
  shows "logged t s s'' \<longleftrightarrow> logged t s s'"
  using logged_append [OF assms, of t] not_logged [OF assms(2)] by simp

lemma logged_after:
  assumes "logs_only (no_text t) s s'" and "logs_only Q s' s''"
  shows "logged t s s'' \<longleftrightarrow> logged t s' s''"
  using logged_append [OF assms, of t] not_logged [OF assms(1)] by simp

lemma logs_only_line: "P l \<Longrightarrow> logs_only P s (s\<lparr>log := log s @ [l]\<rparr>)"
  by (simp add: logs_only_def)

lemma logs_only_refl: "logs_only P s s"
  by (simp add: logs_only_def)

lemma logs_only_trans: "logs_only P a b \<Longrightarrow> logs_only P b c \<Longrightarrow> logs_only P a c"
  using frame_logs_only [of P] unfolding frame_def by blast

subsection \<open>\<open>run_nr5g_measurement\<close> by cases\<close>

lemma run_nr5g_cases:
  fixes tc ts s
  defines "f \<equiv> tc_center_frequency_ghz tc * 1000000000"
  defines "s1 \<equiv> snd (nr5g_setup tc ts s)"
  obtains
    (setup_fails) e where "fst (nr5g_setup tc ts s) = Inl e"
      and "fst (nr5g_try tc ts s) = Inl e"
      and "run_nr5g_measurement tc ts s = s1\<lparr>log := log s1 @ [failure_line ts e]\<rparr>"
  | (measure_fails) t e where "fst (nr5g_setup tc ts s) = Inr t"
      and "fst (nr5g_measure tc ts f t s1) = Inl e"
      and "fst (nr5g_try tc ts s) = Inl e"
      and "run_nr5g_measurement tc ts s =
             (snd (nr5g_measure tc ts f t s1))
               \<lparr>log := log (snd (nr5g_measure tc ts f t s1)) @ [failure_line ts e]\<rparr>"
  | (completes) t where "fst (nr5g_setup tc ts s) = Inr t"
      and "fst (nr5g_measure tc ts f t s1) = Inr ()"
      and "fst (nr5g_try tc ts s) = Inr ()"
      and "run_nr5g_measurement tc ts s = snd (nr5g_measure tc ts f t s1)"
proof (cases "fst (nr5g_setup tc ts s)")
  case (Inl e)
  then show ?thesis
    by (intro setup_fails [of e])
      (simp_all add: run_nr5g_measurement_def nr5g_try_def run_simps s1_def failure_line_def)
next
  case (Inr t)
  show ?thesis
  proof (cases "fst (nr5g_measure tc ts f t s1)")
    case (Inl e)
    with Inr show ?thesis
      by (intro measure_fails [of t e])
        (simp_all add: run_nr5g_measurement_def nr5g_try_def run_simps s1_def f_def
          failure_line_def)
  next
    case r: (Inr u)
    with Inr show ?thesis
      by (intro completes [of t])
        (simp_all add: run_nr5g_measurement_def nr5g_try_def run_simps s1_def f_def)
  qed
qed

lemma failure_line_no_text:
  "no_text evm_text (failure_line ts e)" "no_text retune_text (failure_line ts e)"
  "no_text reconfigure_text (failure_line ts e)"
  by (simp_all add: failure_line_def text_defs)

subsection \<open>The measurement step\<close>

lemmas results_kept = results_methods [THEN staysD] results_nr5g_aclr [THEN staysD]
  results_nr5g_setup [THEN staysD]

lemma nr5g_aclr_timings:
  assumes "fst (nr5g_aclr m T s) = Inr (vals, T')" and "k \<noteq> ''VSA_get_ACLR''"
  shows "T' k = T k"
proof (cases m)
  case False
  with assms show ?thesis by (simp add: nr5g_aclr_def run_simps)
next
  case True
  obtain a dt where "fst (VSA_get_ACLR s) = Inr (a, dt)"
    using VSA_get_ACLR_returns [of s] by blast
  with True assms show ?thesis
    by (auto simp add: nr5g_aclr_def run_simps split: sum.splits)
qed

lemma nr5g_measure_cases:
  fixes tc ts f t s
  obtains
    (power_fails) e where
      "fst (VSG_pwr (tc_power_dbm tc) s) = Inl e"
      "fst (nr5g_measure tc ts f t s) = Inl e"
      "snd (nr5g_measure tc ts f t s) = snd (VSG_pwr (tc_power_dbm tc) s)"
  | (aclr_fails) t1 t2 v t3 s5 T e where
      "fst (VSG_pwr (tc_power_dbm tc) s) = Inr ()"
      "fst (VSA_get_EVM (snd (VSA_sweep (snd (VSA_get_info (snd (VSG_pwr (tc_power_dbm tc) s)))))))
         = Inr (v, t3)"
      "s5 = (snd (VSA_get_EVM (snd (VSA_sweep (snd (VSA_get_info
                (snd (VSG_pwr (tc_power_dbm tc) s))))))))
              \<lparr>log := log (snd (VSA_get_EVM (snd (VSA_sweep (snd (VSA_get_info
                (snd (VSG_pwr (tc_power_dbm tc) s)))))))) @
                 [(INFO, [Txt ''NR5G EVM: '', Fmt ''.2f'' v, Txt '' dB''])]\<rparr>"
      "T = t(''VSA_get_info'' \<mapsto> t1, ''VSA_sweep_evm'' \<mapsto> t2, ''VSA_get_EVM'' \<mapsto> t3,
             ''VSA_get_ACLR'' \<mapsto> 0)"
      "fst (nr5g_aclr (case tc_measure_aclr tc of None \<Rightarrow> True | Some b \<Rightarrow> b) T s5) = Inl e"
      "fst (nr5g_measure tc ts f t s) = Inl e"
      "snd (nr5g_measure tc ts f t s) =
         snd (nr5g_aclr (case tc_measure_aclr tc of None \<Rightarrow> True | Some b \<Rightarrow> b) T s5)"
  | (appended) t1 t2 v t3 s5 T vals T' s6 r where
      "fst (VSG_pwr (tc_power_dbm tc) s) = Inr ()"
      "fst (VSA_get_EVM (snd (VSA_sweep (snd (VSA_get_info (snd (VSG_pwr (tc_power_dbm tc) s)))))))
         = Inr (v, t3)"
      "s5 = (snd (VSA_get_EVM (snd (VSA_sweep (snd (VSA_get_info
                (snd (VSG_pwr (tc_power_dbm tc) s))))))))
              \<lparr>log := log (snd (VSA_get_EVM (snd (VSA_sweep (snd (VSA_get_info
                (snd (VSG_pwr (tc_power_dbm tc) s)))))))) @
                 [(INFO, [Txt ''NR5G EVM: '', Fmt ''.2f'' v, Txt '' dB''])]\<rparr>"
      "T = t(''VSA_get_info'' \<mapsto> t1, ''VSA_sweep_evm'' \<mapsto> t2, ''VSA_get_EVM'' \<mapsto> t3,
             ''VSA_get_ACLR'' \<mapsto> 0)"
      "fst (nr5g_aclr (case tc_measure_aclr tc of None \<Rightarrow> True | Some b \<Rightarrow> b) T s5)
         = Inr (vals, T')"
      "s6 = snd (nr5g_aclr (case tc_measure_aclr tc of None \<Rightarrow> True | Some b \<Rightarrow> b) T s5)"
      "fst (nr5g_measure tc ts f t s) = Inr ()"
      "snd (nr5g_measure tc ts f t s) = s6\<lparr>results := results s6 @ [r]\<rparr>"
      "res_test_set r = ts" "res_type r = ''NR5G''" "res_evm r = Some v" "res_timings r = T'"
proof (cases "fst (VSG_pwr (tc_power_dbm tc) s)")
  case (Inl e)
  then show ?thesis
    by (intro power_fails [of e]) (simp_all add: nr5g_measure_def Let_def run_simps)
next
  case (Inr u)
  let ?s1 = "snd (VSG_pwr (tc_power_dbm tc) s)"
  let ?s2 = "snd (VSA_get_info ?s1)"
  let ?s3 = "snd (VSA_sweep ?s2)"
  let ?s4 = "snd (VSA_get_EVM ?s3)"
  let ?m = "case tc_measure_aclr tc of None \<Rightarrow> True | Some b \<Rightarrow> b"
  obtain c t1 where i: "fst (VSA_get_info ?s1) = Inr (c, t1)"
    using VSA_get_info_run(1) [of ?s1] by blast
  obtain t2 where w: "fst (VSA_sweep ?s2) = Inr ((), t2)"
    using VSA_sweep_run(1) [of ?s2] by blast
  obtain v t3 where m: "fst (VSA_get_EVM ?s3) = Inr (v, t3)"
    using VSA_get_EVM_returns [of ?s3] by blast
  define s5 where "s5 = ?s4\<lparr>log := log ?s4 @ [(INFO, [Txt ''NR5G EVM: '', Fmt ''.2f'' v, Txt '' dB''])]\<rparr>"
  define T where "T = t(''VSA_get_info'' \<mapsto> t1, ''VSA_sweep_evm'' \<mapsto> t2, ''VSA_get_EVM'' \<mapsto> t3,
             ''VSA_get_ACLR'' \<mapsto> 0)"
  show ?thesis
  proof (cases "fst (nr5g_aclr ?m T s5)")
    case (Inl e)
    with Inr i w m show ?thesis
      by (intro aclr_fails [of v t3 s5 T t1 t2 e])
        (simp_all add: nr5g_measure_def Let_def run_simps s5_def T_def)
  next
    case r: (Inr x)
    obtain vals T' where x: "x = (vals, T')" by (cases x)
    define s6 where "s6 = snd (nr5g_aclr ?m T s5)"
    define r where "r =
          \<lparr> res_test_set = ts,
            res_type = ''NR5G'',
            res_center_frequency_hz = f,
            res_power_dbm = tc_power_dbm tc,
            res_resource_blocks = self_rb s6,
            res_resource_block_offset = self_rbo s6,
            res_channel_bandwidth_mhz = self_bw s6,
            res_modulation_type = self_mod s6,
            res_subcarrier_spacing_khz = self_scs s6,
            res_duplexing = self_dupl s6,
            res_link_direction = self_ldir s6,
            res_waveform_file = tc_waveform_file tc,
            res_setup_file = tc_setup_file tc,
            res_config = config_summary f (tc_waveform_file tc) (tc_setup_file tc) ?s2,
            res_evm = Some v,
            res_ch_pwr = nth_opt vals 0,
            res_acp_lower = nth_opt vals 1,
            res_acp_upper = nth_opt vals 2,
            res_alt_lower = nth_opt vals 3,
            res_alt_upper = nth_opt vals 4,
            res_timings = T' \<rparr>"
    from Inr i w m r x show ?thesis
      by (intro appended [of v t3 s5 T t1 t2 vals T' s6 r])
        (simp_all add: nr5g_measure_def Let_def run_simps s5_def T_def s6_def r_def)
  qed
qed

subsection \<open>The setup step\<close>

lemma logged_first_line:
  assumes "log s' = log s @ l # ls" and "\<not> no_text t l"
  shows "logged t s s'"
  using assms by (auto simp: logged_def new_lines_def)

lemma seqE_logger_first:
  assumes "stays (logs_only P) n"
  shows "\<exists>ls. log (snd (seqE (logger lvl msg) n s)) = log s @ (lvl, msg) # ls"
proof -
  let ?s1 = "s\<lparr>log := log s @ [(lvl, msg)]\<rparr>"
  from staysD [OF assms, of ?s1] obtain ls where "log (snd (n ?s1)) = log ?s1 @ ls"
    by (auto simp: logs_only_def)
  then show ?thesis
    by (simp add: run_simps)
qed

lemma method_timer_log:
  "log (snd (method_timer m s)) = log (snd (m (s\<lparr>ticks := Suc (ticks s)\<rparr>)))"
  by (simp add: run_simps split: sum.splits)

lemma VSx_freq_first_line:
  "\<exists>ls. log (snd (VSx_freq f s)) =
          log s @ (INFO, [Txt retune_text, Fmt ''.3f'' (Fin (f / 1000000000)), Txt ''GHz'']) # ls"
proof -
  have "stays (logs_only (\<lambda>_. True))
          (if f \<le> 0
              then seqE (logger ERROR [Txt ''Invalid frequency: '', Fmt [] (Fin f)])
                        (raiseE (ValueError [Txt ''Invalid frequency: '', Fmt [] (Fin f)]))
              else doE [voidE (vsa_query [Txt '':SENS:FREQ:CENT '', Fmt [] (Fin f),
                                          Txt '';*OPC?'']),
                        voidE (vsg_query [Txt '':SOUR:FREQ:CW '', Fmt [] (Fin f),
                                          Txt '';*OPC?'']),
                        modifyE (\<lambda>s. s\<lparr>self_freq := f\<rparr>)])"
    by (intro stays_intros frame_logs_only stays_modifyE; simp add: logs_only_def)+
  from seqE_logger_first [OF this, of INFO _ "s\<lparr>ticks := Suc (ticks s)\<rparr>"]
  show ?thesis
    unfolding VSx_freq_def method_timer_log retune_text_def by simp
qed

lemma VSx_freq_logged: "logged retune_text s (snd (VSx_freq f s))"
proof -
  from VSx_freq_first_line [of f s] obtain ls where
    "log (snd (VSx_freq f s)) =
       log s @ (INFO, [Txt retune_text, Fmt ''.3f'' (Fin (f / 1000000000)), Txt ''GHz'']) # ls"
    by blast
  then show ?thesis
    by (rule logged_first_line) (simp add: no_text_def)
qed

lemma VSA_get_EVM_logged: "logged evm_text s (snd (VSA_get_EVM s))"
proof -
  have "stays (logs_only (\<lambda>_. True))
          (tryE VSA_get_EVM_try
                (\<lambda>e. seqE (logger ERROR (Txt ''EVM measurement failed: '' # exn_msg e))
                           (returnE NaN)))"
    unfolding VSA_get_EVM_try_def Let_def
    by (intro stays_intros frame_logs_only stays_modifyE; simp add: logs_only_def)+
  from seqE_logger_first [OF this, of INFO "[Txt ''Measuring EVM'']" "s\<lparr>ticks := Suc (ticks s)\<rparr>"]
  obtain ls where "log (snd (VSA_get_EVM s)) = log s @ (INFO, [Txt ''Measuring EVM'']) # ls"
    unfolding VSA_get_EVM_def method_timer_log by auto
  then show ?thesis
    by (rule logged_first_line) (simp add: no_text_def evm_text_def)
qed

lemma nr5g_reconfigure_skip:
  assumes "previous_config s = Some cur"
  shows "nr5g_reconfigure cur f t s =
           (Inr t, s\<lparr>log := log s @
              [(INFO, [Txt ''Waveform configuration unchanged, skipping VSA/VSG config''])]\<rparr>)"
  using assms by (intro prod_eqI) (simp_all add: nr5g_reconfigure_def run_simps)

lemma nr5g_reconfigure_done:
  assumes "previous_config s \<noteq> Some cur" and "fst (nr5g_reconfigure cur f t s) = Inr t'"
  shows "(\<exists>a b. t' = t(''VSG_Config'' \<mapsto> a, ''VSA_Config'' \<mapsto> b)) \<and>
         previous_config (snd (nr5g_reconfigure cur f t s)) = Some cur \<and>
         previous_freq (snd (nr5g_reconfigure cur f t s)) = Some f"
proof -
  let ?s1 = "s\<lparr>log := log s @ [(INFO, [Txt ''Waveform configuration changed, reconfiguring VSA/VSG''])]\<rparr>"
  from assms obtain u a where g: "fst (VSG_Config ?s1) = Inr (u, a)"
    by (cases "fst (VSG_Config ?s1)") (auto simp add: nr5g_reconfigure_def run_simps)
  from assms g obtain w b where a: "fst (VSA_Config (Some f) (snd (VSG_Config ?s1))) = Inr (w, b)"
    by (cases "fst (VSA_Config (Some f) (snd (VSG_Config ?s1)))")
      (auto simp add: nr5g_reconfigure_def run_simps)
  from assms g a show ?thesis
    by (auto simp add: nr5g_reconfigure_def run_simps)
qed

lemma nr5g_reconfigure_logged:
  "logged reconfigure_text s (snd (nr5g_reconfigure cur f t s)) \<longleftrightarrow> previous_config s \<noteq> Some cur"
proof (cases "previous_config s = Some cur")
  case True
  then show ?thesis
    by (simp add: nr5g_reconfigure_skip logged_def new_lines_def text_defs)
next
  case False
  have "stays (logs_only (\<lambda>_. True))
         (bindE VSG_Config (\<lambda>(_, t_vsg).
          bindE (VSA_Config (Some f)) (\<lambda>(_, t_vsa).
          seqE (modifyE (\<lambda>s. s\<lparr>previous_config := Some cur, previous_freq := Some f\<rparr>))
               (returnE (t(''VSG_Config'' \<mapsto> t_vsg, ''VSA_Config'' \<mapsto> t_vsa))))))"
    by (intro stays_intros frame_logs_only stays_modifyE
        stays_weaken [OF logs_only_grows no_evm_methods(2)]
        stays_weaken [OF logs_only_grows no_evm_methods(3)]; simp add: logs_only_def)+
  from seqE_logger_first [OF this, of INFO "[Txt reconfigure_text]" s] False
  obtain ls where "log (snd (nr5g_reconfigure cur f t s)) = log s @ (INFO, [Txt reconfigure_text]) # ls"
    by (auto simp add: nr5g_reconfigure_def run_simps reconfigure_text_def)
  then have "logged reconfigure_text s (snd (nr5g_reconfigure cur f t s))"
    by (rule logged_first_line) (simp add: no_text_def)
  with False show ?thesis by simp
qed

lemma nr5g_retune_skip:
  assumes "previous_freq s = Some p" and "\<bar>p - f\<bar> \<le> 1 / 1000"
  shows "nr5g_retune f t s =
           (Inr (t(''VSx_freq'' \<mapsto> 0)),
            s\<lparr>log := log s @ [(INFO, [Txt ''Frequency unchanged, skipping VSx_freq''])]\<rparr>)"
  using assms by (intro prod_eqI) (simp_all add: nr5g_retune_def run_simps)

lemma nr5g_retune_done:
  assumes "previous_freq s = None \<or> \<bar>the (previous_freq s) - f\<bar> > 1 / 1000"
  shows "logged retune_text s (snd (nr5g_retune f t s))"
    and "fst (nr5g_retune f t s) = Inr t' \<Longrightarrow>
           (\<exists>dt. t' = t(''VSx_freq'' \<mapsto> dt)) \<and> previous_freq (snd (nr5g_retune f t s)) = Some f"
proof -
  let ?l = "(INFO, [Txt ''Frequency changed, setting VSA/VSG to '',
                             Fmt ''.3f'' (Fin (f / 1000000000)), Txt ''GHz''])"
  let ?s1 = "s\<lparr>log := log s @ [?l]\<rparr>"
  let ?s2 = "snd (VSx_freq f ?s1)"
  have a: "logs_only (no_text retune_text) s ?s1"
    by (rule logs_only_line) (simp add: text_defs)
  have b: "logged retune_text ?s1 ?s2"
    by (rule VSx_freq_logged)
  have c: "logs_only (\<lambda>_. True) ?s1 ?s2"
    using staysD [OF no_evm_methods(4) [of f], of ?s1] by (rule logs_only_grows)
  have d: "log (snd (nr5g_retune f t s)) = log ?s2"
    using assms by (auto simp add: nr5g_retune_def run_simps split: sum.splits)
  have "logged retune_text s ?s2"
    using logged_after [OF a c] b by simp
  then show "logged retune_text s (snd (nr5g_retune f t s))"
    using d by (simp add: logged_def new_lines_def)
  show "(\<exists>dt. t' = t(''VSx_freq'' \<mapsto> dt)) \<and> previous_freq (snd (nr5g_retune f t s)) = Some f"
    if "fst (nr5g_retune f t s) = Inr t'"
    using that assms by (auto simp add: nr5g_retune_def run_simps split: sum.splits)
qed

lemma start_message_no_text:
  "no_text retune_text (INFO, start_message tc ts)"
  "no_text reconfigure_text (INFO, start_message tc ts)"
  "no_text evm_text (INFO, start_message tc ts)"
  by (simp_all add: text_defs)

lemma nr5g_setup_unfold:
  "\<exists>l. no_text retune_text l \<and> no_text reconfigure_text l \<and> no_text evm_text l \<and>
       nr5g_setup tc ts s =
         bindE (nr5g_reconfigure (tc_waveform_file tc, tc_setup_file tc)
                  (tc_center_frequency_ghz tc * 1000000000) Map.empty)
               (nr5g_retune (tc_center_frequency_ghz tc * 1000000000))
               (s\<lparr>log := log s @ [l]\<rparr>)"
  by (intro exI [of _ "(INFO, start_message tc ts)"] conjI start_message_no_text)
    (simp add: nr5g_setup_def Let_def seqE_def bindE_def logger_def)

lemma nr5g_setup_logged_reconfigure:
  "logged reconfigure_text s (snd (nr5g_setup tc ts s)) \<longleftrightarrow>
     previous_config s \<noteq> Some (tc_waveform_file tc, tc_setup_file tc)"
proof -
  let ?cur = "(tc_waveform_file tc, tc_setup_file tc)"
  let ?f = "tc_center_frequency_ghz tc * 1000000000"
  from nr5g_setup_unfold [of tc ts s] obtain l where l: "no_text reconfigure_text l"
    and u: "nr5g_setup tc ts s =
         bindE (nr5g_reconfigure ?cur ?f Map.empty) (nr5g_retune ?f) (s\<lparr>log := log s @ [l]\<rparr>)"
    by blast
  let ?s0 = "s\<lparr>log := log s @ [l]\<rparr>"
  let ?s1 = "snd (nr5g_reconfigure ?cur ?f Map.empty ?s0)"
  let ?s2 = "snd (nr5g_setup tc ts s)"
  have a: "logs_only (no_text reconfigure_text) s ?s0"
    using l by (rule logs_only_line)
  have b: "logs_only (\<lambda>_. True) ?s0 ?s1"
    using staysD [OF no_retune_nr5g_reconfigure [of ?cur ?f Map.empty], of ?s0]
    by (rule logs_only_grows)
  have c: "logs_only (no_text reconfigure_text) ?s1 ?s2"
  proof (cases "fst (nr5g_reconfigure ?cur ?f Map.empty ?s0)")
    case (Inl e)
    then show ?thesis by (simp add: u run_simps logs_only_refl)
  next
    case (Inr t)
    then show ?thesis
      using staysD [OF no_reconfigure_nr5g_retune [of ?f t], of ?s1] by (simp add: u run_simps)
  qed
  have d: "logs_only (\<lambda>_. True) ?s0 ?s2"
    using b logs_only_grows [OF c] by (rule logs_only_trans)
  have "logged reconfigure_text s ?s2 \<longleftrightarrow> logged reconfigure_text ?s0 ?s2"
    using a d by (rule logged_after)
  also have "\<dots> \<longleftrightarrow> logged reconfigure_text ?s0 ?s1"
    using b c by (rule logged_before)
  also have "\<dots> \<longleftrightarrow> previous_config ?s0 \<noteq> Some ?cur"
    by (rule nr5g_reconfigure_logged)
  finally show ?thesis by simp
qed

lemma nr5g_setup_logged_retune:
  "logged retune_text s (snd (nr5g_setup tc ts s)) \<longleftrightarrow>
     previous_config s = Some (tc_waveform_file tc, tc_setup_file tc) \<and>
     (previous_freq s = None \<or>
      \<bar>the (previous_freq s) - tc_center_frequency_ghz tc * 1000000000\<bar> > 1 / 1000)"
proof -
  let ?cur = "(tc_waveform_file tc, tc_setup_file tc)"
  let ?f = "tc_center_frequency_ghz tc * 1000000000"
  from nr5g_setup_unfold [of tc ts s] obtain l where l: "no_text retune_text l"
    and u: "nr5g_setup tc ts s =
         bindE (nr5g_reconfigure ?cur ?f Map.empty) (nr5g_retune ?f) (s\<lparr>log := log s @ [l]\<rparr>)"
    by blast
  let ?s0 = "s\<lparr>log := log s @ [l]\<rparr>"
  let ?s1 = "snd (nr5g_reconfigure ?cur ?f Map.empty ?s0)"
  let ?s2 = "snd (nr5g_setup tc ts s)"
  have a: "logs_only (no_text retune_text) s ?s0"
    using l by (rule logs_only_line)
  have b: "logs_only (no_text retune_text) ?s0 ?s1"
    by (rule staysD [OF no_retune_nr5g_reconfigure])
  have ab: "logs_only (no_text retune_text) s ?s1"
    using a b by (rule logs_only_trans)
  show ?thesis
  proof (cases "fst (nr5g_reconfigure ?cur ?f Map.empty ?s0)")
    case (Inl e)
    then have "?s2 = ?s1" by (simp add: u run_simps)
    then have n: "\<not> logged retune_text s ?s2"
      using not_logged [OF ab] by simp
    from Inl have "previous_config s \<noteq> Some ?cur"
      using nr5g_reconfigure_skip [of ?s0 ?cur ?f Map.empty] by auto
    with n show ?thesis by simp
  next
    case (Inr t)
    then have s2: "?s2 = snd (nr5g_retune ?f t ?s1)" by (simp add: u run_simps)
    show ?thesis
    proof (cases "previous_config s = Some ?cur")
      case True
      then have s1: "nr5g_reconfigure ?cur ?f Map.empty ?s0 =
           (Inr Map.empty, ?s0\<lparr>log := log ?s0 @
              [(INFO, [Txt ''Waveform configuration unchanged, skipping VSA/VSG config''])]\<rparr>)"
        by (intro nr5g_reconfigure_skip) simp
      then have pf: "previous_freq ?s1 = previous_freq s"
        by simp
      show ?thesis
      proof (cases "previous_freq s = None \<or> \<bar>the (previous_freq s) - ?f\<bar> > 1 / 1000")
        case c: True
        then have "logged retune_text ?s1 (snd (nr5g_retune ?f t ?s1))"
          using pf by (intro nr5g_retune_done(1)) simp
        moreover have "logs_only (\<lambda>_. True) ?s1 (snd (nr5g_retune ?f t ?s1))"
          using staysD [OF no_reconfigure_nr5g_retune [of ?f t], of ?s1] by (rule logs_only_grows)
        ultimately have "logged retune_text s (snd (nr5g_retune ?f t ?s1))"
          using logged_after [OF ab] by blast
        with True c s2 show ?thesis by simp
      next
        case c: False
        then obtain p where p: "previous_freq ?s1 = Some p" "\<bar>p - ?f\<bar> \<le> 1 / 1000"
          using pf by (cases "previous_freq s") auto
        have "logs_only (no_text retune_text) ?s1 (snd (nr5g_retune ?f t ?s1))"
          unfolding nr5g_retune_skip [OF p]
          by (simp add: logs_only_line text_defs)
        with ab have "logs_only (no_text retune_text) s (snd (nr5g_retune ?f t ?s1))"
          by (rule logs_only_trans)
        from not_logged [OF this] c s2 show ?thesis by simp
      qed
    next
      case False
      then have "previous_config ?s0 \<noteq> Some ?cur" by simp
      from nr5g_reconfigure_done [OF this Inr]
      have p: "previous_freq ?s1 = Some ?f" "\<bar>?f - ?f\<bar> \<le> 1 / 1000"
        by simp_all
      have "logs_only (no_text retune_text) ?s1 (snd (nr5g_retune ?f t ?s1))"
        unfolding nr5g_retune_skip [OF p]
        by (simp add: logs_only_line text_defs)
      with ab have "logs_only (no_text retune_text) s (snd (nr5g_retune ?f t ?s1))"
        by (rule logs_only_trans)
      from not_logged [OF this] False s2 show ?thesis by simp
    qed
  qed
qed

lemma nr5g_setup_returns:
  assumes "fst (nr5g_setup tc ts s) = Inr t"
  shows "(previous_config s = Some (tc_waveform_file tc, tc_setup_file tc) \<longrightarrow>
            t ''VSG_Config'' = None \<and> t ''VSA_Config'' = None)"
    and "(previous_config s \<noteq> Some (tc_waveform_file tc, tc_setup_file tc) \<longrightarrow>
            t ''VSG_Config'' \<noteq> None \<and> t ''VSA_Config'' \<noteq> None)"
    and "(\<not> (previous_config s = Some (tc_waveform_file tc, tc_setup_file tc) \<and>
            (previous_freq s = None \<or>
             \<bar>the (previous_freq s) - tc_center_frequency_ghz tc * 1000000000\<bar> > 1 / 1000)) \<longrightarrow>
            t ''VSx_freq'' = Some 0)"
    and "t ''VSx_freq'' \<noteq> None"
    and "previous_config (snd (nr5g_setup tc ts s)) = Some (tc_waveform_file tc, tc_setup_file tc)"
proof -
  let ?cur = "(tc_waveform_file tc, tc_setup_file tc)"
  let ?f = "tc_center_frequency_ghz tc * 1000000000"
  from nr5g_setup_unfold [of tc ts s] obtain l where
    u: "nr5g_setup tc ts s =
         bindE (nr5g_reconfigure ?cur ?f Map.empty) (nr5g_retune ?f) (s\<lparr>log := log s @ [l]\<rparr>)"
    by blast
  let ?s0 = "s\<lparr>log := log s @ [l]\<rparr>"
  let ?s1 = "snd (nr5g_reconfigure ?cur ?f Map.empty ?s0)"
  from assms obtain t0 where r: "fst (nr5g_reconfigure ?cur ?f Map.empty ?s0) = Inr t0"
    and q: "fst (nr5g_retune ?f t0 ?s1) = Inr t"
    and s2: "snd (nr5g_setup tc ts s) = snd (nr5g_retune ?f t0 ?s1)"
    by (cases "fst (nr5g_reconfigure ?cur ?f Map.empty ?s0)") (auto simp add: u run_simps)
  have k: "t k = t0 k" if "k \<noteq> ''VSx_freq''" for k
    using q that by (auto simp add: nr5g_retune_def run_simps split: sum.splits if_splits)
  have x: "t ''VSx_freq'' \<noteq> None"
    using q by (auto simp add: nr5g_retune_def run_simps split: sum.splits if_splits)
  have pc: "previous_config (snd (nr5g_retune ?f t0 ?s1)) = previous_config ?s1"
    using staysD [OF globals_methods(4) [of ?f]]
    by (auto simp add: nr5g_retune_def run_simps globals_kept_def split: sum.splits)
  show "previous_config s = Some ?cur \<longrightarrow> t ''VSG_Config'' = None \<and> t ''VSA_Config'' = None"
  proof
    assume "previous_config s = Some ?cur"
    then have "nr5g_reconfigure ?cur ?f Map.empty ?s0 = (Inr Map.empty, ?s0\<lparr>log := log ?s0 @
              [(INFO, [Txt ''Waveform configuration unchanged, skipping VSA/VSG config''])]\<rparr>)"
      by (intro nr5g_reconfigure_skip) simp
    with r have "t0 = Map.empty" by simp
    then show "t ''VSG_Config'' = None \<and> t ''VSA_Config'' = None"
      by (simp add: k)
  qed
  show "previous_config s \<noteq> Some ?cur \<longrightarrow> t ''VSG_Config'' \<noteq> None \<and> t ''VSA_Config'' \<noteq> None"
  proof
    assume "previous_config s \<noteq> Some ?cur"
    then have "previous_config ?s0 \<noteq> Some ?cur" by simp
    from nr5g_reconfigure_done [OF this r]
    obtain a b where "t0 = Map.empty(''VSG_Config'' \<mapsto> a, ''VSA_Config'' \<mapsto> b)" by blast
    then show "t ''VSG_Config'' \<noteq> None \<and> t ''VSA_Config'' \<noteq> None"
      by (simp add: k)
  qed
  show "t ''VSx_freq'' \<noteq> None" by (rule x)
  show "\<not> (previous_config s = Some ?cur \<and>
            (previous_freq s = None \<or> \<bar>the (previous_freq s) - ?f\<bar> > 1 / 1000)) \<longrightarrow>
            t ''VSx_freq'' = Some 0"
  proof
    assume n: "\<not> (previous_config s = Some ?cur \<and>
            (previous_freq s = None \<or> \<bar>the (previous_freq s) - ?f\<bar> > 1 / 1000))"
    have "\<exists>p. previous_freq ?s1 = Some p \<and> \<bar>p - ?f\<bar> \<le> 1 / 1000"
    proof (cases "previous_config s = Some ?cur")
      case True
      then have "nr5g_reconfigure ?cur ?f Map.empty ?s0 = (Inr Map.empty, ?s0\<lparr>log := log ?s0 @
              [(INFO, [Txt ''Waveform configuration unchanged, skipping VSA/VSG config''])]\<rparr>)"
        by (intro nr5g_reconfigure_skip) simp
      then have "previous_freq ?s1 = previous_freq s" by simp
      with n True show ?thesis by (cases "previous_freq s") auto
    next
      case False
      then have "previous_config ?s0 \<noteq> Some ?cur" by simp
      from nr5g_reconfigure_done [OF this r] show ?thesis by simp
    qed
    then obtain p where p: "previous_freq ?s1 = Some p" "\<bar>p - ?f\<bar> \<le> 1 / 1000" by blast
    from q show "t ''VSx_freq'' = Some 0"
      unfolding nr5g_retune_skip [OF p] by auto
  qed
  show "previous_config (snd (nr5g_setup tc ts s)) = Some ?cur"
  proof (cases "previous_config s = Some ?cur")
    case True
    then have "nr5g_reconfigure ?cur ?f Map.empty ?s0 = (Inr Map.empty, ?s0\<lparr>log := log ?s0 @
              [(INFO, [Txt ''Waveform configuration unchanged, skipping VSA/VSG config''])]\<rparr>)"
      by (intro nr5g_reconfigure_skip) simp
    then have "previous_config ?s1 = previous_config s" by simp
    with True show ?thesis by (simp add: s2 pc)
  next
    case False
    then have "previous_config ?s0 \<noteq> Some ?cur" by simp
    from nr5g_reconfigure_done [OF this r] have "previous_config ?s1 = Some ?cur" by simp
    then show ?thesis by (simp add: s2 pc)
  qed
qed

end
